theory Spec2Isabelle
  imports Main "HOL-Library.Sublist"
begin

section \<open>Python strings and lists\<close>

text \<open>
  The four scripts of the repository read one text file, search it for hard-coded
  fragments, splice text in and write the file back. A Python \<^verbatim>\<open>str\<close> is
  modelled by the bytes of its UTF-8 encoding (a \<^typ>\<open>string\<close>): every fragment the
  scripts search for is ASCII, and on valid UTF-8 a substring test, a count of one ASCII
  character and a concatenation give the same answer on the bytes as on the code points.
\<close>

text \<open>\<^verbatim>\<open>sub in s\<close>: \<^verbatim>\<open>sub\<close> occurs in \<^verbatim>\<open>s\<close> as a contiguous substring.\<close>

fun py_in :: "string \<Rightarrow> string \<Rightarrow> bool" where
  "py_in sub [] = (sub = [])"
| "py_in sub (c # cs) = (prefix sub (c # cs) \<or> py_in sub cs)"

text \<open>\<^verbatim>\<open>s.count(c)\<close> for a single character \<^verbatim>\<open>c\<close>.\<close>

definition str_count :: "string \<Rightarrow> char \<Rightarrow> int" where
  "str_count s c = int (length (filter (\<lambda>x. x = c) s))"

text \<open>
  The offset of the leftmost occurrence of a non-empty fragment, as \<^verbatim>\<open>re.search\<close>
  finds it for a pattern without operators and as \<^verbatim>\<open>str.replace\<close> does.
\<close>

fun find_sub :: "string \<Rightarrow> string \<Rightarrow> nat option" where
  "find_sub sub [] = (if sub = [] then Some 0 else None)"
| "find_sub sub (c # cs) =
     (if prefix sub (c # cs) then Some 0 else map_option Suc (find_sub sub cs))"

text \<open>
  \<^verbatim>\<open>s.replace(old, new)\<close>, and \<^verbatim>\<open>re.sub(old, new, s)\<close> for a pattern that is one
  fragment: every occurrence of \<open>old\<close>, found from left to right without overlap, is
  replaced. (With an empty \<open>old\<close>, \<^verbatim>\<open>str.replace\<close> puts \<open>new\<close> before every
  character and at the end.)
\<close>

function str_replace :: "string \<Rightarrow> string \<Rightarrow> string \<Rightarrow> string" where
  "str_replace old new s =
     (if old = [] then new @ concat (map (\<lambda>c. c # new) s)
      else if s = [] then []
      else if prefix old s then new @ str_replace old new (drop (length old) s)
      else hd s # str_replace old new (tl s))"
  by pat_completeness auto
termination
  by (relation "measure (\<lambda>(old, new, s). length s)") auto

declare str_replace.simps [simp del]

text \<open>
  The loop \<^verbatim>\<open>for i, line in enumerate(lines): if sub in line: ...; break\<close>:
  the index of the first line that contains the fragment.
\<close>

fun find_line :: "string \<Rightarrow> string list \<Rightarrow> nat option" where
  "find_line sub [] = None"
| "find_line sub (line # rest) =
     (if py_in sub line then Some 0 else map_option Suc (find_line sub rest))"

text \<open>
  A slice bound of Python, for a list of length \<open>n\<close>: a negative bound counts from the
  end, and every bound is clamped to the list.
\<close>

definition slice_bound :: "nat \<Rightarrow> int \<Rightarrow> nat" where
  "slice_bound n i = (if i < 0 then nat (max 0 (int n + i)) else min n (nat i))"

text \<open>\<^verbatim>\<open>del xs[a:b]\<close>.\<close>

definition del_slice :: "int \<Rightarrow> int \<Rightarrow> 'a list \<Rightarrow> 'a list" where
  "del_slice a b xs =
     (let lo = slice_bound (length xs) a; hi = slice_bound (length xs) b
      in if lo < hi then take lo xs @ drop hi xs else xs)"

text \<open>\<^verbatim>\<open>xs[a:b] = ys\<close>.\<close>

definition set_slice :: "int \<Rightarrow> int \<Rightarrow> 'a list \<Rightarrow> 'a list \<Rightarrow> 'a list" where
  "set_slice a b ys xs =
     (let lo = slice_bound (length xs) a; hi = max lo (slice_bound (length xs) b)
      in take lo xs @ ys @ drop hi xs)"

text \<open>\<^verbatim>\<open>xs.insert(i, y)\<close> for an index \<open>i\<close> that is not negative.\<close>

definition list_insert :: "nat \<Rightarrow> 'a \<Rightarrow> 'a list \<Rightarrow> 'a list" where
  "list_insert i y xs = take i xs @ [y] @ drop i xs"

text \<open>
  The truth value of a variable that holds \<^verbatim>\<open>None\<close> or a line index:
  \<^verbatim>\<open>None\<close> and \<^verbatim>\<open>0\<close> are false.
\<close>

fun truthy :: "nat option \<Rightarrow> bool" where
  "truthy None = False"
| "truthy (Some n) = (n \<noteq> 0)"

section \<open>Text files\<close>

text \<open>
  A file system maps a path to the bytes of the file there. The scripts open their file
  with \<^verbatim>\<open>open(path, 'r', encoding='utf-8')\<close> and \<^verbatim>\<open>open(path, 'w', encoding='utf-8')\<close>,
  that is in text mode with universal newlines: reading raises
  \<^verbatim>\<open>FileNotFoundError\<close> for a missing file and \<^verbatim>\<open>UnicodeDecodeError\<close> for bytes
  that are not UTF-8, and turns \<^verbatim>\<open>\r\n\<close> and \<^verbatim>\<open>\r\<close> into \<^verbatim>\<open>\n\<close>; writing
  turns every \<^verbatim>\<open>\n\<close> into the line separator of the platform. Access rights and
  device errors are not modelled.
\<close>

type_synonym path = string

type_synonym filesystem = "path \<Rightarrow> string option"

datatype platform = Posix | Windows

datatype error = FileNotFoundError | UnicodeDecodeError

definition LF :: char where
  "LF = CHR 0x0A"

definition CR :: char where
  "CR = CHR 0x0D"

fun linesep :: "platform \<Rightarrow> string" where
  "linesep Posix = [LF]"
| "linesep Windows = [CR, LF]"

definition continuation :: "char \<Rightarrow> bool" where
  "continuation c = (0x80 \<le> (of_char c :: nat) \<and> (of_char c :: nat) \<le> 0xBF)"

text \<open>
  The second byte of a three-byte and of a four-byte sequence: no overlong form, no
  surrogate, nothing above U+10FFFF.
\<close>

definition second_of_three :: "nat \<Rightarrow> char \<Rightarrow> bool" where
  "second_of_three b c =
     (if b = 0xE0 then 0xA0 \<le> (of_char c :: nat) \<and> (of_char c :: nat) \<le> 0xBF
      else if b = 0xED then 0x80 \<le> (of_char c :: nat) \<and> (of_char c :: nat) \<le> 0x9F
      else continuation c)"

definition second_of_four :: "nat \<Rightarrow> char \<Rightarrow> bool" where
  "second_of_four b c =
     (if b = 0xF0 then 0x90 \<le> (of_char c :: nat) \<and> (of_char c :: nat) \<le> 0xBF
      else if b = 0xF4 then 0x80 \<le> (of_char c :: nat) \<and> (of_char c :: nat) \<le> 0x8F
      else continuation c)"

function utf8_valid :: "string \<Rightarrow> bool" where
  "utf8_valid [] = True"
| "utf8_valid (b # bs) =
     (if (of_char b :: nat) < 0x80 then utf8_valid bs
      else if 0xC2 \<le> (of_char b :: nat) \<and> (of_char b :: nat) \<le> 0xDF then
        1 \<le> length bs \<and> continuation (bs ! 0) \<and> utf8_valid (drop 1 bs)
      else if 0xE0 \<le> (of_char b :: nat) \<and> (of_char b :: nat) \<le> 0xEF then
        2 \<le> length bs \<and> second_of_three (of_char b) (bs ! 0) \<and> continuation (bs ! 1)
          \<and> utf8_valid (drop 2 bs)
      else if 0xF0 \<le> (of_char b :: nat) \<and> (of_char b :: nat) \<le> 0xF4 then
        3 \<le> length bs \<and> second_of_four (of_char b) (bs ! 0) \<and> continuation (bs ! 1)
          \<and> continuation (bs ! 2) \<and> utf8_valid (drop 3 bs)
      else False)"
  by pat_completeness auto
termination
  by (relation "measure length") auto

text \<open>Universal newlines on reading.\<close>

fun universal_newlines :: "string \<Rightarrow> string" where
  "universal_newlines [] = []"
| "universal_newlines [c] = [if c = CR then LF else c]"
| "universal_newlines (c # d # cs) =
     (if c = CR then
        (if d = LF then LF # universal_newlines cs else LF # universal_newlines (d # cs))
      else c # universal_newlines (d # cs))"

text \<open>The translation of \<^verbatim>\<open>\n\<close> on writing.\<close>

definition write_newlines :: "platform \<Rightarrow> string \<Rightarrow> string" where
  "write_newlines pf s = concat (map (\<lambda>c. if c = LF then linesep pf else [c]) s)"

text \<open>\<^verbatim>\<open>f.read()\<close> on a file opened for reading.\<close>

definition read_text :: "filesystem \<Rightarrow> path \<Rightarrow> error + string" where
  "read_text fs p =
     (case fs p of
        None \<Rightarrow> Inl FileNotFoundError
      | Some bytes \<Rightarrow>
          if utf8_valid bytes then Inr (universal_newlines bytes) else Inl UnicodeDecodeError)"

text \<open>
  \<^verbatim>\<open>f.readlines()\<close> cuts the text after each \<^verbatim>\<open>\n\<close>; each line keeps its
  terminator, and a last line without one is kept too.
\<close>

fun split_lines :: "string \<Rightarrow> string list" where
  "split_lines [] = []"
| "split_lines (c # cs) =
     (if c = LF then [c] # split_lines cs
      else (case split_lines cs of [] \<Rightarrow> [[c]] | l # ls \<Rightarrow> (c # l) # ls))"

definition read_lines :: "filesystem \<Rightarrow> path \<Rightarrow> error + string list" where
  "read_lines fs p = map_sum id split_lines (read_text fs p)"

text \<open>\<^verbatim>\<open>f.write(text)\<close> and \<^verbatim>\<open>f.writelines(lines)\<close> on a file opened with \<^verbatim>\<open>'w'\<close>.\<close>

definition write_text :: "platform \<Rightarrow> filesystem \<Rightarrow> path \<Rightarrow> string \<Rightarrow> filesystem" where
  "write_text pf fs p s = fs(p \<mapsto> write_newlines pf s)"

definition write_lines :: "platform \<Rightarrow> filesystem \<Rightarrow> path \<Rightarrow> string list \<Rightarrow> filesystem" where
  "write_lines pf fs p ls = write_text pf fs p (concat ls)"

text \<open>
  What a run leaves behind: the file system, the arguments of the \<^verbatim>\<open>print\<close> calls in
  order, and the exception that ended it, if one did. A Python process that ends with an
  uncaught exception has exit status 1, and 0 otherwise.
\<close>

record world =
  disk :: filesystem
  stdout :: "string list"
  raised :: "error option"

definition start :: "filesystem \<Rightarrow> world" where
  "start fs = \<lparr>disk = fs, stdout = [], raised = None\<rparr>"


definition print :: "string \<Rightarrow> world \<Rightarrow> world" where
  "print s w = w\<lparr>stdout := stdout w @ [s]\<rparr>"

text \<open>
  The shape all the scripts share: read the file as lines (or as one string), patch the
  buffer, write it back, print the message. An exception while reading leaves the rest
  undone.
\<close>

definition rewrite_lines ::
  "platform \<Rightarrow> path \<Rightarrow> (string list \<Rightarrow> string list) \<Rightarrow> string \<Rightarrow> world \<Rightarrow> world" where
  "rewrite_lines pf p patch msg w =
     (case read_lines (disk w) p of
        Inl e \<Rightarrow> w\<lparr>raised := Some e\<rparr>
      | Inr ls \<Rightarrow> print msg (w\<lparr>disk := write_lines pf (disk w) p (patch ls)\<rparr>))"

definition rewrite_text ::
  "platform \<Rightarrow> path \<Rightarrow> (string \<Rightarrow> string) \<Rightarrow> string \<Rightarrow> world \<Rightarrow> world" where
  "rewrite_text pf p patch msg w =
     (case read_text (disk w) p of
        Inl e \<Rightarrow> w\<lparr>raised := Some e\<rparr>
      | Inr s \<Rightarrow> print msg (w\<lparr>disk := write_text pf (disk w) p (patch s)\<rparr>))"

section \<open>remove-inline-edit.py\<close>

definition inventory_path :: path where
  "inventory_path = ''D:/Tire-Shop-MVP/src/app/inventory/page.tsx''"

definition edit_anchor :: string where
  "edit_anchor = ''{editingTireId === tire.id ? (''"

definition else_marker :: string where
  "else_marker = '') : (''"

definition regular_view_marker :: string where
  "regular_view_marker = ''/* Regular View */''"

definition remove_inline_edit_message :: string where
  "remove_inline_edit_message = ''[OK] Inline edit form removed from inventory page''"

text \<open>
  The brace-counting loop of lines 13 to 31, from line index \<open>i\<close> on, with the loop's
  variables as arguments; the result is \<^verbatim>\<open>(edit_start, edit_end)\<close> when the loop
  is left. The anchor is an argument, so that the loop can be run with another one;
  the script runs it with \<^const>\<open>edit_anchor\<close>.
\<close>

fun edit_scan ::
  "string \<Rightarrow> string list \<Rightarrow> nat \<Rightarrow> bool \<Rightarrow> nat option \<Rightarrow> int \<Rightarrow> nat option \<times> nat option" where
  "edit_scan anchor [] i in_edit_section edit_start brace_count = (edit_start, None)"
| "edit_scan anchor (line # rest) i in_edit_section edit_start brace_count =
     (if py_in anchor line then edit_scan anchor rest (Suc i) True (Some i) 1
      else if in_edit_section then
        (let brace_count' = brace_count + (str_count line CHR ''{'' - str_count line CHR ''}'')
         in if py_in else_marker line \<and> brace_count' = 0
            then edit_scan anchor rest (Suc i) False edit_start brace_count'
            else if brace_count' < 0 then (edit_start, Some i)
            else edit_scan anchor rest (Suc i) True edit_start brace_count')
      else edit_scan anchor rest (Suc i) False edit_start brace_count)"

definition brace_locate :: "string \<Rightarrow> string list \<Rightarrow> nat option \<times> nat option" where
  "brace_locate anchor lines = edit_scan anchor lines 0 False None 0"

definition edit_locate :: "string list \<Rightarrow> nat option \<times> nat option" where
  "edit_locate lines = brace_locate edit_anchor lines"

text \<open>
  \<^verbatim>\<open>for i in range(edit_start, edit_end + 1): if marker in lines[i]: ...; break\<close>,
  for \<open>edit_end\<close> an index of the list.
\<close>

definition find_line_between :: "string \<Rightarrow> string list \<Rightarrow> nat \<Rightarrow> nat \<Rightarrow> nat option" where
  "find_line_between sub lines a b =
     map_option (\<lambda>k. a + k) (find_line sub (take (Suc b - a) (drop a lines)))"

text \<open>Lines 34 to 49: the deletion, under its two truth-value guards.\<close>

definition remove_inline_edit :: "string list \<Rightarrow> string list" where
  "remove_inline_edit lines =
     (case edit_locate lines of
        (edit_start, edit_end) \<Rightarrow>
          if truthy edit_start \<and> truthy edit_end then
            (let regular_view_line =
               find_line_between regular_view_marker lines (the edit_start) (the edit_end)
             in if truthy regular_view_line
                then del_slice (int (the edit_start)) (int (the regular_view_line) - 2) lines
                else lines)
          else lines)"

definition remove_inline_edit_script :: "platform \<Rightarrow> world \<Rightarrow> world" where
  "remove_inline_edit_script pf w =
     rewrite_lines pf inventory_path remove_inline_edit remove_inline_edit_message w"

section \<open>convert-modals.py\<close>

subsection \<open>The fragments searched for and the text put in\<close>

definition customers_path :: path where
  \<open>customers_path = ''D:/Tire-Shop-MVP/src/app/customers/page.tsx''\<close>

definition react_import_old :: string where
  \<open>react_import_old = ''import { useEffect, useState, Suspense } from \'react\';''\<close>

definition react_import_new :: string where
  \<open>react_import_new =
     ''import { useEffect, useState, Suspense, useRef } from \'react\';\<newline>''\<close>

definition motion_import_old :: string where
  \<open>motion_import_old = ''import { motion } from \'framer-motion\';''\<close>

definition motion_import_new :: string where
  \<open>motion_import_new =
     ''import { motion, AnimatePresence } from \'framer-motion\';\<newline>''\<close>

definition inventory_icons_old :: string where
  \<open>inventory_icons_old =
     ''import { Package, Plus, Search, Download, Trash2, Edit, Check, Loader2 } from \'lucide-react\';''\<close>

definition inventory_icons_new :: string where
  \<open>inventory_icons_new =
     ''import { Package, Plus, Search, Download, Trash2, Edit, Check, Loader2, X } from \'lucide-react\';\<newline>''\<close>

definition customers_icons_old :: string where
  \<open>customers_icons_old =
     ''import { Users, Plus, Search, Edit, Eye, Trash2 } from \'lucide-react\';''\<close>

definition customers_icons_new :: string where
  \<open>customers_icons_new =
     ''import { Users, Plus, Search, Edit, Eye, Trash2, X } from \'lucide-react\';\<newline>''\<close>

definition supabase_anchor :: string where
  \<open>supabase_anchor = ''  const supabase = createClient();''\<close>

definition modal_ref_line :: string where
  \<open>modal_ref_line =
     ''  const modalRef = useRef<HTMLDivElement>(null);\<newline>'' @
     ''\<newline>''\<close>

definition inventory_effect_anchor :: string where
  \<open>inventory_effect_anchor = ''  }, [searchTerm, stockFilter, inventory]);''\<close>

definition customers_effect_anchor :: string where
  \<open>customers_effect_anchor = ''  }, [searchTerm, customers]);''\<close>

definition scroll_lock_effect :: string where
  \<open>scroll_lock_effect =
     ''\<newline>'' @
     ''  useEffect(() => {\<newline>'' @
     ''    if (showForm) {\<newline>'' @
     ''      document.body.style.overflow = \'hidden\';\<newline>'' @
     ''    } else {\<newline>'' @
     ''      document.body.style.overflow = '' @
     [CHR 0x27] @
     ''\';\<newline>'' @
     ''    }\<newline>'' @
     ''    return () => {\<newline>'' @
     ''      document.body.style.overflow = '' @
     [CHR 0x27] @
     ''\';\<newline>'' @
     ''    };\<newline>'' @
     ''  }, [showForm]);\<newline>''\<close>

definition form_marker :: string where
  \<open>form_marker = ''        {/* Form */}''\<close>

definition form_closer :: string where
  \<open>form_closer = ''        )}''\<close>

definition inventory_modal_form :: string where
  \<open>inventory_modal_form =
     ''        {/* Form Modal */}\<newline>'' @
     ''        {showForm && (\<newline>'' @
     ''          <AnimatePresence>\<newline>'' @
     ''            <motion.div\<newline>'' @
     ''              initial={{ opacity: 0 }}\<newline>'' @
     ''              animate={{ opacity: 1 }}\<newline>'' @
     ''              exit={{ opacity: 0 }}\<newline>'' @
     ''              className="fixed inset-0 bg-black/60 backdrop-blur-sm z-50"\<newline>'' @
     ''              onClick={() => setShowForm(false)}\<newline>'' @
     ''              aria-hidden="true"\<newline>'' @
     ''            />\<newline>'' @
     ''\<newline>'' @
     ''            <div\<newline>'' @
     ''              className="fixed inset-0 overflow-y-auto pointer-events-none z-50"\<newline>'' @
     ''              style={{ overscrollBehavior: \'contain\' }}\<newline>'' @
     ''            >\<newline>'' @
     ''              <div className="min-h-full flex items-center justify-center p-6 pointer-events-none">\<newline>'' @
     ''                <div\<newline>'' @
     ''                  ref={modalRef}\<newline>'' @
     ''                  role="dialog"\<newline>'' @
     ''                  aria-modal="true"\<newline>'' @
     ''                  aria-labelledby="modal-title"\<newline>'' @
     ''                  tabIndex={-1}\<newline>'' @
     ''                  className="pointer-events-auto w-[90vw] max-w-[1200px]"\<newline>'' @
     ''                  style={{ overflow: \'visible\' }}\<newline>'' @
     ''                  onClick={(e) => e.stopPropagation()}\<newline>'' @
     ''                  onKeyDown={(e) => {\<newline>'' @
     ''                    if (e.key === \'Escape\') {\<newline>'' @
     ''                      setShowForm(false);\<newline>'' @
     ''                    }\<newline>'' @
     ''                  }}\<newline>'' @
     ''                >\<newline>'' @
     ''                  <motion.div\<newline>'' @
     ''                    initial={{ opacity: 0, scale: 0.95 }}\<newline>'' @
     ''                    animate={{ opacity: 1, scale: 1 }}\<newline>'' @
     ''                    exit={{ opacity: 0, scale: 0.95 }}\<newline>'' @
     ''                    className="bg-gray-50 dark:bg-gray-900 rounded-2xl shadow-2xl"\<newline>'' @
     ''                    style={{ maxHeight: \'90vh\', padding: \'24px\', overflow: \'visible\' }}\<newline>'' @
     ''                  >\<newline>'' @
     ''                    {/* Header with X button */}\<newline>'' @
     ''                    <div className="flex items-center justify-between mb-6 pb-6 border-b border-gray-200 dark:border-gray-800">\<newline>'' @
     ''                      <h2 id="modal-title" className="text-2xl font-semibold text-gray-900 dark:text-white">\<newline>'' @
     ''                        Add New Tire\<newline>'' @
     ''                      </h2>\<newline>'' @
     ''                      <button\<newline>'' @
     ''                        type="button"\<newline>'' @
     ''                        onClick={() => setShowForm(false)}\<newline>'' @
     ''                        className="p-2 hover:bg-gray-200 dark:hover:bg-gray-800 rounded-lg transition-colors"\<newline>'' @
     ''                      >\<newline>'' @
     ''                        <X size={20} className="text-gray-500 dark:text-gray-400" />\<newline>'' @
     ''                      </button>\<newline>'' @
     ''                    </div>\<newline>'' @
     ''\<newline>'' @
     ''                    {/* Form with scrollable content */}\<newline>'' @
     ''                    <form onSubmit={handleSubmit} className="flex flex-col" style={{ maxHeight: \'calc(90vh - 180px)\' }}>\<newline>'' @
     ''                      <div className="overflow-y-auto flex-1 pr-2 -mr-2">\<newline>'' @
     ''                        <div className="grid grid-cols-1 sm:grid-cols-2 gap-4">\<newline>'' @
     ''                          <div>\<newline>'' @
     ''                            <label className="block text-xs font-medium text-gray-600 dark:text-gray-400 mb-2 uppercase tracking-wide">\<newline>'' @
     ''                              Brand *\<newline>'' @
     ''                            </label>\<newline>'' @
     ''                            <input\<newline>'' @
     ''                              type="text"\<newline>'' @
     ''                              required\<newline>'' @
     ''                              value={formData.brand}\<newline>'' @
     ''                              onChange={(e) =>\<newline>'' @
     ''                                setFormData({ ...formData, brand: e.target.value })\<newline>'' @
     ''                              }\<newline>'' @
     ''                              className="w-full h-11 px-3 rounded-lg border-gray-300 dark:border-gray-700 bg-white dark:bg-gray-800 text-gray-900 dark:text-white text-xs focus:outline-none focus:ring-2 focus:ring-blue-500 focus:border-transparent"\<newline>'' @
     ''                            />\<newline>'' @
     ''                          </div>\<newline>'' @
     ''                          <div>\<newline>'' @
     ''                            <label className="block text-xs font-medium text-gray-600 dark:text-gray-400 mb-2 uppercase tracking-wide">\<newline>'' @
     ''                              Model *\<newline>'' @
     ''                            </label>\<newline>'' @
     ''                            <input\<newline>'' @
     ''                              type="text"\<newline>'' @
     ''                              required\<newline>'' @
     ''                              value={formData.model}\<newline>'' @
     ''                              onChange={(e) =>\<newline>'' @
     ''                                setFormData({ ...formData, model: e.target.value })\<newline>'' @
     ''                              }\<newline>'' @
     ''                              className="w-full h-11 px-3 rounded-lg border-gray-300 dark:border-gray-700 bg-white dark:bg-gray-800 text-gray-900 dark:text-white text-xs focus:outline-none focus:ring-2 focus:ring-blue-500 focus:border-transparent"\<newline>'' @
     ''                            />\<newline>'' @
     ''                          </div>\<newline>'' @
     ''                          <div>\<newline>'' @
     ''                            <label className="block text-xs font-medium text-gray-600 dark:text-gray-400 mb-2 uppercase tracking-wide">\<newline>'' @
     ''                              Size *\<newline>'' @
     ''                            </label>\<newline>'' @
     ''                            <input\<newline>'' @
     ''                              type="text"\<newline>'' @
     ''                              required\<newline>'' @
     ''                              placeholder="e.g., 225/45R17"\<newline>'' @
     ''                              value={formData.size}\<newline>'' @
     ''                              onChange={(e) =>\<newline>'' @
     ''                                setFormData({ ...formData, size: e.target.value })\<newline>'' @
     ''                              }\<newline>'' @
     ''                              className="w-full h-11 px-3 rounded-lg border-gray-300 dark:border-gray-700 bg-white dark:bg-gray-800 text-gray-900 dark:text-white text-xs focus:outline-none focus:ring-2 focus:ring-blue-500 focus:border-transparent"\<newline>'' @
     ''                            />\<newline>'' @
     ''                          </div>\<newline>'' @
     ''                          <div>\<newline>'' @
     ''                            <label className="block text-xs font-medium text-gray-600 dark:text-gray-400 mb-2 uppercase tracking-wide">\<newline>'' @
     ''                              Quantity *\<newline>'' @
     ''                            </label>\<newline>'' @
     ''                            <Stepper\<newline>'' @
     ''                              value={formData.quantity}\<newline>'' @
     ''                              onChange={(value) => setFormData({ ...formData, quantity: value })}\<newline>'' @
     ''                              min={0}\<newline>'' @
     ''                              className="justify-start"\<newline>'' @
     ''                            />\<newline>'' @
     ''                          </div>\<newline>'' @
     ''                          <div>\<newline>'' @
     ''                            <label className="block text-xs font-medium text-gray-600 dark:text-gray-400 mb-2 uppercase tracking-wide">\<newline>'' @
     ''                              Price *\<newline>'' @
     ''                            </label>\<newline>'' @
     ''                            <input\<newline>'' @
     ''                              type="number"\<newline>'' @
     ''                              required\<newline>'' @
     ''                              min="0"\<newline>'' @
     ''                              step="0.01"\<newline>'' @
     ''                              value={formData.price}\<newline>'' @
     ''                              onChange={(e) =>\<newline>'' @
     ''                                setFormData({ ...formData, price: parseFloat(e.target.value) })\<newline>'' @
     ''                              }\<newline>'' @
     ''                              className="w-full h-11 px-3 rounded-lg border-gray-300 dark:border-gray-700 bg-white dark:bg-gray-800 text-gray-900 dark:text-white text-xs focus:outline-none focus:ring-2 focus:ring-blue-500 focus:border-transparent"\<newline>'' @
     ''                            />\<newline>'' @
     ''                          </div>\<newline>'' @
     ''                          <div className="col-span-1 sm:col-span-2">\<newline>'' @
     ''                            <label className="block text-xs font-medium text-gray-600 dark:text-gray-400 mb-2 uppercase tracking-wide">\<newline>'' @
     ''                              Description\<newline>'' @
     ''                            </label>\<newline>'' @
     ''                            <textarea\<newline>'' @
     ''                              value={formData.description}\<newline>'' @
     ''                              onChange={(e) =>\<newline>'' @
     ''                                setFormData({ ...formData, description: e.target.value })\<newline>'' @
     ''                              }\<newline>'' @
     ''                              className="w-full h-24 px-3 py-2 rounded-lg border border-gray-300 dark:border-gray-700 bg-white dark:bg-gray-800 text-gray-900 dark:text-white text-xs focus:outline-none focus:ring-2 focus:ring-blue-500 focus:border-transparent resize-none"\<newline>'' @
     ''                              rows={3}\<newline>'' @
     ''                            />\<newline>'' @
     ''                          </div>\<newline>'' @
     ''                        </div>\<newline>'' @
     ''                      </div>\<newline>'' @
     ''\<newline>'' @
     ''                      {/* Fixed Button Row at Bottom */}\<newline>'' @
     ''                      <div className="flex gap-3 justify-end mt-6 pt-6 border-t border-gray-200 dark:border-gray-800">\<newline>'' @
     ''                        <button\<newline>'' @
     ''                          type="button"\<newline>'' @
     ''                          onClick={() => setShowForm(false)}\<newline>'' @
     ''                          className="px-6 py-2.5 rounded-lg border border-gray-300 dark:border-gray-700 bg-white dark:bg-gray-800 text-gray-700 dark:text-gray-300 hover:bg-gray-50 dark:hover:bg-gray-750 transition-all text-sm font-medium"\<newline>'' @
     ''                        >\<newline>'' @
     ''                          Cancel\<newline>'' @
     ''                        </button>\<newline>'' @
     ''                        <button\<newline>'' @
     ''                          type="submit"\<newline>'' @
     ''                          className="px-6 py-2.5 rounded-lg bg-blue-600 hover:bg-blue-700 text-white transition-all text-sm font-medium shadow-sm hover:shadow-md"\<newline>'' @
     ''                        >\<newline>'' @
     ''                          Add Tire\<newline>'' @
     ''                        </button>\<newline>'' @
     ''                      </div>\<newline>'' @
     ''                    </form>\<newline>'' @
     ''                  </motion.div>\<newline>'' @
     ''                </div>\<newline>'' @
     ''              </div>\<newline>'' @
     ''            </div>\<newline>'' @
     ''          </AnimatePresence>\<newline>'' @
     ''        )}\<newline>'' @
     ''\<newline>''\<close>

definition customers_modal_form :: string where
  \<open>customers_modal_form =
     ''        {/* Form Modal */}\<newline>'' @
     ''        {showForm && (\<newline>'' @
     ''          <AnimatePresence>\<newline>'' @
     ''            <motion.div\<newline>'' @
     ''              initial={{ opacity: 0 }}\<newline>'' @
     ''              animate={{ opacity: 1 }}\<newline>'' @
     ''              exit={{ opacity: 0 }}\<newline>'' @
     ''              className="fixed inset-0 bg-black/60 backdrop-blur-sm z-50"\<newline>'' @
     ''              onClick={() => setShowForm(false)}\<newline>'' @
     ''              aria-hidden="true"\<newline>'' @
     ''            />\<newline>'' @
     ''\<newline>'' @
     ''            <div\<newline>'' @
     ''              className="fixed inset-0 overflow-y-auto pointer-events-none z-50"\<newline>'' @
     ''              style={{ overscrollBehavior: \'contain\' }}\<newline>'' @
     ''            >\<newline>'' @
     ''              <div className="min-h-full flex items-center justify-center p-6 pointer-events-none">\<newline>'' @
     ''                <div\<newline>'' @
     ''                  ref={modalRef}\<newline>'' @
     ''                  role="dialog"\<newline>'' @
     ''                  aria-modal="true"\<newline>'' @
     ''                  aria-labelledby="modal-title"\<newline>'' @
     ''                  tabIndex={-1}\<newline>'' @
     ''                  className="pointer-events-auto w-[90vw] max-w-[1200px]"\<newline>'' @
     ''                  style={{ overflow: \'visible\' }}\<newline>'' @
     ''                  onClick={(e) => e.stopPropagation()}\<newline>'' @
     ''                  onKeyDown={(e) => {\<newline>'' @
     ''                    if (e.key === \'Escape\') {\<newline>'' @
     ''                      setShowForm(false);\<newline>'' @
     ''                    }\<newline>'' @
     ''                  }}\<newline>'' @
     ''                >\<newline>'' @
     ''                  <motion.div\<newline>'' @
     ''                    initial={{ opacity: 0, scale: 0.95 }}\<newline>'' @
     ''                    animate={{ opacity: 1, scale: 1 }}\<newline>'' @
     ''                    exit={{ opacity: 0, scale: 0.95 }}\<newline>'' @
     ''                    className="bg-gray-50 dark:bg-gray-900 rounded-2xl shadow-2xl"\<newline>'' @
     ''                    style={{ maxHeight: \'90vh\', padding: \'24px\', overflow: \'visible\' }}\<newline>'' @
     ''                  >\<newline>'' @
     ''                    {/* Header with X button */}\<newline>'' @
     ''                    <div className="flex items-center justify-between mb-6 pb-6 border-b border-gray-200 dark:border-gray-800">\<newline>'' @
     ''                      <h2 id="modal-title" className="text-2xl font-semibold text-gray-900 dark:text-white">\<newline>'' @
     ''                        {editingId ? \'Edit Customer\' : \'Add New Customer\'}\<newline>'' @
     ''                      </h2>\<newline>'' @
     ''                      <button\<newline>'' @
     ''                        type="button"\<newline>'' @
     ''                        onClick={() => setShowForm(false)}\<newline>'' @
     ''                        className="p-2 hover:bg-gray-200 dark:hover:bg-gray-800 rounded-lg transition-colors"\<newline>'' @
     ''                      >\<newline>'' @
     ''                        <X size={20} className="text-gray-500 dark:text-gray-400" />\<newline>'' @
     ''                      </button>\<newline>'' @
     ''                    </div>\<newline>'' @
     ''\<newline>'' @
     ''                    {/* Form with scrollable content */}\<newline>'' @
     ''                    <form onSubmit={handleSubmit} className="flex flex-col" style={{ maxHeight: \'calc(90vh - 180px)\' }}>\<newline>'' @
     ''                      <div className="overflow-y-auto flex-1 pr-2 -mr-2">\<newline>'' @
     ''                        <div className="grid grid-cols-1 sm:grid-cols-2 gap-4">\<newline>'' @
     ''                          <div>\<newline>'' @
     ''                            <label className="block text-xs font-medium text-gray-600 dark:text-gray-400 mb-2 uppercase tracking-wide">\<newline>'' @
     ''                              Name *\<newline>'' @
     ''                            </label>\<newline>'' @
     ''                            <input\<newline>'' @
     ''                              type="text"\<newline>'' @
     ''                              required\<newline>'' @
     ''                              value={formData.name}\<newline>'' @
     ''                              onChange={(e) => setFormData({ ...formData, name: e.target.value })}\<newline>'' @
     ''                              className="w-full h-11 px-3 rounded-lg border-gray-300 dark:border-gray-700 bg-white dark:bg-gray-800 text-gray-900 dark:text-white text-xs focus:outline-none focus:ring-2 focus:ring-blue-500 focus:border-transparent"\<newline>'' @
     ''                            />\<newline>'' @
     ''                          </div>\<newline>'' @
     ''                          <div>\<newline>'' @
     ''                            <label className="block text-xs font-medium text-gray-600 dark:text-gray-400 mb-2 uppercase tracking-wide">\<newline>'' @
     ''                              Phone *\<newline>'' @
     ''                            </label>\<newline>'' @
     ''                            <input\<newline>'' @
     ''                              type="tel"\<newline>'' @
     ''                              required\<newline>'' @
     ''                              value={formData.phone}\<newline>'' @
     ''                              onChange={(e) => setFormData({ ...formData, phone: e.target.value })}\<newline>'' @
     ''                              className="w-full h-11 px-3 rounded-lg border-gray-300 dark:border-gray-700 bg-white dark:bg-gray-800 text-gray-900 dark:text-white text-xs focus:outline-none focus:ring-2 focus:ring-blue-500 focus:border-transparent"\<newline>'' @
     ''                            />\<newline>'' @
     ''                          </div>\<newline>'' @
     ''                          <div>\<newline>'' @
     ''                            <label className="block text-xs font-medium text-gray-600 dark:text-gray-400 mb-2 uppercase tracking-wide">\<newline>'' @
     ''                              Email\<newline>'' @
     ''                            </label>\<newline>'' @
     ''                            <input\<newline>'' @
     ''                              type="email"\<newline>'' @
     ''                              value={formData.email}\<newline>'' @
     ''                              onChange={(e) => setFormData({ ...formData, email: e.target.value })}\<newline>'' @
     ''                              className="w-full h-11 px-3 rounded-lg border-gray-300 dark:border-gray-700 bg-white dark:bg-gray-800 text-gray-900 dark:text-white text-xs focus:outline-none focus:ring-2 focus:ring-blue-500 focus:border-transparent"\<newline>'' @
     ''                            />\<newline>'' @
     ''                          </div>\<newline>'' @
     ''                          <div>\<newline>'' @
     ''                            <label className="block text-xs font-medium text-gray-600 dark:text-gray-400 mb-2 uppercase tracking-wide">\<newline>'' @
     ''                              Address\<newline>'' @
     ''                            </label>\<newline>'' @
     ''                            <input\<newline>'' @
     ''                              type="text"\<newline>'' @
     ''                              value={formData.address}\<newline>'' @
     ''                              onChange={(e) => setFormData({ ...formData, address: e.target.value })}\<newline>'' @
     ''                              className="w-full h-11 px-3 rounded-lg border-gray-300 dark:border-gray-700 bg-white dark:bg-gray-800 text-gray-900 dark:text-white text-xs focus:outline-none focus:ring-2 focus:ring-blue-500 focus:border-transparent"\<newline>'' @
     ''                            />\<newline>'' @
     ''                          </div>\<newline>'' @
     ''                        </div>\<newline>'' @
     ''                      </div>\<newline>'' @
     ''\<newline>'' @
     ''                      {/* Fixed Button Row at Bottom */}\<newline>'' @
     ''                      <div className="flex gap-3 justify-end mt-6 pt-6 border-t border-gray-200 dark:border-gray-800">\<newline>'' @
     ''                        <button\<newline>'' @
     ''                          type="button"\<newline>'' @
     ''                          onClick={() => setShowForm(false)}\<newline>'' @
     ''                          className="px-6 py-2.5 rounded-lg border border-gray-300 dark:border-gray-700 bg-white dark:bg-gray-800 text-gray-700 dark:text-gray-300 hover:bg-gray-50 dark:hover:bg-gray-750 transition-all text-sm font-medium"\<newline>'' @
     ''                        >\<newline>'' @
     ''                          Cancel\<newline>'' @
     ''                        </button>\<newline>'' @
     ''                        <button\<newline>'' @
     ''                          type="submit"\<newline>'' @
     ''                          className="px-6 py-2.5 rounded-lg bg-blue-600 hover:bg-blue-700 text-white transition-all text-sm font-medium shadow-sm hover:shadow-md"\<newline>'' @
     ''                        >\<newline>'' @
     ''                          {editingId ? \'Update Customer\' : \'Add Customer\'}\<newline>'' @
     ''                        </button>\<newline>'' @
     ''                      </div>\<newline>'' @
     ''                    </form>\<newline>'' @
     ''                  </motion.div>\<newline>'' @
     ''                </div>\<newline>'' @
     ''              </div>\<newline>'' @
     ''            </div>\<newline>'' @
     ''          </AnimatePresence>\<newline>'' @
     ''        )}\<newline>'' @
     ''\<newline>''\<close>

definition inventory_message :: string where
  \<open>inventory_message = ''[OK] Inventory page converted to modal overlay''\<close>

definition customers_message :: string where
  \<open>customers_message = ''[OK] Customers page converted to modal overlay''\<close>

definition all_pages_message :: string where
  \<open>all_pages_message =
     ''\<newline>'' @
     ''[OK] All pages successfully converted to modal overlays!''\<close>

subsection \<open>The four steps of a page conversion\<close>

text \<open>
  \<^verbatim>\<open>convert_inventory_page\<close> and \<^verbatim>\<open>convert_customers_page\<close> are the same code
  but for the path, the icon import, the anchor of the scroll-lock effect, the modal form
  and the message; the steps below take those as arguments.

  Step 1 looks at the first ten lines and replaces a line that contains one of three
  import statements.
\<close>

definition update_import :: "string \<Rightarrow> string \<Rightarrow> string \<Rightarrow> string" where
  "update_import icons_old icons_new line =
     (if py_in react_import_old line then react_import_new
      else if py_in motion_import_old line then motion_import_new
      else if py_in icons_old line then icons_new
      else line)"

definition update_imports :: "string \<Rightarrow> string \<Rightarrow> string list \<Rightarrow> string list" where
  "update_imports icons_old icons_new lines =
     map (update_import icons_old icons_new) (take 10 lines) @ drop 10 lines"

text \<open>Step 2 inserts the declaration of \<^verbatim>\<open>modalRef\<close> before the first line that holds the anchor.\<close>

definition add_modal_ref :: "string list \<Rightarrow> string list" where
  "add_modal_ref lines =
     (case find_line supabase_anchor lines of
        None \<Rightarrow> lines
      | Some i \<Rightarrow> list_insert i modal_ref_line lines)"

text \<open>
  Step 3 inserts the scroll-lock effect, as one element of the list, after the first line
  that holds the anchor.
\<close>

definition add_scroll_lock :: "string \<Rightarrow> string list \<Rightarrow> string list" where
  "add_scroll_lock anchor lines =
     (case find_line anchor lines of
        None \<Rightarrow> lines
      | Some i \<Rightarrow> list_insert (Suc i) scroll_lock_effect lines)"

text \<open>
  Step 4, the loop that looks for the form section, from line index \<open>i\<close> on; the result
  is \<^verbatim>\<open>(form_start, form_end)\<close> when the loop is left.
\<close>

fun form_scan :: "string list \<Rightarrow> nat \<Rightarrow> nat option \<Rightarrow> nat option \<times> nat option" where
  "form_scan [] i form_start = (form_start, None)"
| "form_scan (line # rest) i form_start =
     (let form_start' = (if py_in form_marker line then Some i else form_start)
      in case form_start' of
           None \<Rightarrow> form_scan rest (Suc i) form_start'
         | Some s \<Rightarrow>
             if py_in form_closer line \<and> i > s + 10 then (form_start', Some (i + 1))
             else form_scan rest (Suc i) form_start')"

definition locate_form :: "string list \<Rightarrow> nat option \<times> nat option" where
  "locate_form lines = form_scan lines 0 None"

text \<open>The replacement of the located lines by the modal form, under its truth-value guard.\<close>

definition replace_form :: "string \<Rightarrow> string list \<Rightarrow> string list" where
  "replace_form modal_form lines =
     (case locate_form lines of
        (form_start, form_end) \<Rightarrow>
          if truthy form_start \<and> truthy form_end
          then set_slice (int (the form_start)) (int (the form_end)) [modal_form] lines
          else lines)"

definition convert_page ::
  "string \<Rightarrow> string \<Rightarrow> string \<Rightarrow> string \<Rightarrow> string list \<Rightarrow> string list" where
  "convert_page icons_old icons_new effect_anchor modal_form lines =
     replace_form modal_form
       (add_scroll_lock effect_anchor
         (add_modal_ref
           (update_imports icons_old icons_new lines)))"

subsection \<open>The two functions and the script\<close>

definition convert_inventory_lines :: "string list \<Rightarrow> string list" where
  "convert_inventory_lines =
     convert_page inventory_icons_old inventory_icons_new inventory_effect_anchor
       inventory_modal_form"

definition convert_customers_lines :: "string list \<Rightarrow> string list" where
  "convert_customers_lines =
     convert_page customers_icons_old customers_icons_new customers_effect_anchor
       customers_modal_form"

definition convert_inventory_page :: "platform \<Rightarrow> world \<Rightarrow> world" where
  "convert_inventory_page pf w =
     rewrite_lines pf inventory_path convert_inventory_lines inventory_message w"

definition convert_customers_page :: "platform \<Rightarrow> world \<Rightarrow> world" where
  "convert_customers_page pf w =
     rewrite_lines pf customers_path convert_customers_lines customers_message w"

text \<open>
  The main block calls the two functions one after the other and prints a last message;
  an exception in a call ends the run there.
\<close>

definition convert_modals_script :: "platform \<Rightarrow> world \<Rightarrow> world" where
  "convert_modals_script pf w =
     (let w1 = convert_inventory_page pf w
      in if raised w1 \<noteq> None then w1
         else (let w2 = convert_customers_page pf w1
               in if raised w2 \<noteq> None then w2
                  else print all_pages_message w2))"

section \<open>convert-to-modal.py\<close>

subsection \<open>The patterns and the text put in\<close>

text \<open>
  The regular expressions of this script are fragments to be found literally (every
  operator character in them is escaped), but for the group around the first one and
  the one \<^verbatim>\<open>.*?\<close> of the last one, which stands between the two fragments
  \<^verbatim>\<open>old_buttons_head\<close> and \<^verbatim>\<open>old_buttons_tail\<close> here. The fragments are
  written without the escapes. The replacement templates hold no backslash.
\<close>

definition scroll_lock_pattern :: string where
  \<open>scroll_lock_pattern = ''  }, [searchTerm, stockFilter, inventory];''\<close>

definition old_form :: string where
  \<open>old_form =
     ''        {/* Form */}\<newline>'' @
     ''        {showForm && (\<newline>'' @
     ''          <motion.div\<newline>'' @
     ''            initial={{ opacity: 0, y: -20 }}\<newline>'' @
     ''            animate={{ opacity: 1, y: 0 }}\<newline>'' @
     ''            className="bg-gray-50 dark:bg-gray-900 rounded-2xl border border-gray-200 dark:border-gray-700 shadow-lg"\<newline>'' @
     ''            style={{ padding: \'24px\' }}\<newline>'' @
     ''          >\<newline>'' @
     ''            <h2 className="text-xl font-semibold text-gray-900 dark:text-white mb-6">Add New Tire</h2>''\<close>

definition new_form :: string where
  \<open>new_form =
     ''        {/* Form Modal */}\<newline>'' @
     ''        {showForm && (\<newline>'' @
     ''          <AnimatePresence>\<newline>'' @
     ''            <motion.div\<newline>'' @
     ''              initial={{ opacity: 0 }}\<newline>'' @
     ''              animate={{ opacity: 1 }}\<newline>'' @
     ''              exit={{ opacity: 0 }}\<newline>'' @
     ''              className="fixed inset-0 bg-black/60 backdrop-blur-sm z-50"\<newline>'' @
     ''              onClick={() => setShowForm(false)}\<newline>'' @
     ''              aria-hidden="true"\<newline>'' @
     ''            />\<newline>'' @
     ''\<newline>'' @
     ''            <div\<newline>'' @
     ''              className="fixed inset-0 overflow-y-auto pointer-events-none z-50"\<newline>'' @
     ''              style={{ overscrollBehavior: \'contain\' }}\<newline>'' @
     ''            >\<newline>'' @
     ''              <div className="min-h-full flex items-center justify-center p-6 pointer-events-none">\<newline>'' @
     ''                <div\<newline>'' @
     ''                  ref={modalRef}\<newline>'' @
     ''                  role="dialog"\<newline>'' @
     ''                  aria-modal="true"\<newline>'' @
     ''                  aria-labelledby="modal-title"\<newline>'' @
     ''                  tabIndex={-1}\<newline>'' @
     ''                  className="pointer-events-auto w-[90vw] max-w-[1200px]"\<newline>'' @
     ''                  style={{ overflow: \'visible\' }}\<newline>'' @
     ''                  onClick={(e) => e.stopPropagation()}\<newline>'' @
     ''                  onKeyDown={(e) => {\<newline>'' @
     ''                    if (e.key === \'Escape\') {\<newline>'' @
     ''                      setShowForm(false);\<newline>'' @
     ''                    }\<newline>'' @
     ''                  }}\<newline>'' @
     ''                >\<newline>'' @
     ''                  <motion.div\<newline>'' @
     ''                    initial={{ opacity: 0, scale: 0.95 }}\<newline>'' @
     ''                    animate={{ opacity: 1, scale: 1 }}\<newline>'' @
     ''                    exit={{ opacity: 0, scale: 0.95 }}\<newline>'' @
     ''                    className="bg-gray-50 dark:bg-gray-900 rounded-2xl shadow-2xl"\<newline>'' @
     ''                    style={{ maxHeight: \'90vh\', padding: \'24px\', overflow: \'visible\' }}\<newline>'' @
     ''                  >\<newline>'' @
     ''                    {/* Header with X button */}\<newline>'' @
     ''                    <div className="flex items-center justify-between mb-6 pb-6 border-b border-gray-200 dark:border-gray-800">\<newline>'' @
     ''                      <h2 id="modal-title" className="text-2xl font-semibold text-gray-900 dark:text-white">\<newline>'' @
     ''                        Add New Tire\<newline>'' @
     ''                      </h2>\<newline>'' @
     ''                      <button\<newline>'' @
     ''                        type="button"\<newline>'' @
     ''                        onClick={() => setShowForm(false)}\<newline>'' @
     ''                        className="p-2 hover:bg-gray-200 dark:hover:bg-gray-800 rounded-lg transition-colors"\<newline>'' @
     ''                      >\<newline>'' @
     ''                        <X size={20} className="text-gray-500 dark:text-gray-400" />\<newline>'' @
     ''                      </button>\<newline>'' @
     ''                    </div>''\<close>

definition old_form_tag :: string where
  \<open>old_form_tag = ''            <form onSubmit={handleSubmit} className="space-y-6">''\<close>

definition new_form_tag :: string where
  \<open>new_form_tag =
     ''                    {/* Form with scrollable content */}\<newline>'' @
     ''                    <form onSubmit={handleSubmit} className="flex flex-col" style={{ maxHeight: \'calc(90vh - 180px)\' }}>\<newline>'' @
     ''                      <div className="overflow-y-auto flex-1 pr-2 -mr-2">''\<close>

definition old_buttons_head :: string where
  \<open>old_buttons_head =
     ''              <div className="flex flex-col sm:flex-row gap-3 pt-4 border-t border-gray-200 dark:border-gray-800">\<newline>'' @
     ''                <button\<newline>'' @
     ''                  type="button"\<newline>'' @
     ''                  onClick={''\<close>

definition old_buttons_tail :: string where
  \<open>old_buttons_tail =
     ''}\<newline>'' @
     ''                  className="sm:flex-1 h-11 px-4 rounded-lg border border-gray-300 dark:border-gray-700 bg-white dark:bg-gray-800 text-gray-700 dark:text-gray-300 text-sm font-medium hover:bg-gray-100 dark:hover:bg-gray-750 transition-colors"\<newline>'' @
     ''                >\<newline>'' @
     ''                  Cancel\<newline>'' @
     ''                </button>\<newline>'' @
     ''                <button\<newline>'' @
     ''                  type="submit"\<newline>'' @
     ''                  className="sm:flex-1 h-11 px-4 rounded-lg bg-blue-600 hover:bg-blue-700 text-white text-sm font-semibold transition-colors shadow-sm hover:shadow-md"\<newline>'' @
     ''                >\<newline>'' @
     ''                  Add Tire\<newline>'' @
     ''                </button>\<newline>'' @
     ''              </div>\<newline>'' @
     ''            </form>\<newline>'' @
     ''          </motion.div>\<newline>'' @
     ''        )}''\<close>

definition new_buttons :: string where
  \<open>new_buttons =
     ''                      </div>\<newline>'' @
     ''\<newline>'' @
     ''                      {/* Fixed Button Row at Bottom */}\<newline>'' @
     ''                      <div className="flex gap-3 justify-end mt-6 pt-6 border-t border-gray-200 dark:border-gray-800">\<newline>'' @
     ''                        <button\<newline>'' @
     ''                          type="button"\<newline>'' @
     ''                          onClick={() => setShowForm(false)}\<newline>'' @
     ''                          className="px-6 py-2.5 rounded-lg border border-gray-300 dark:border-gray-700 bg-white dark:bg-gray-800 text-gray-700 dark:text-gray-300 hover:bg-gray-50 dark:hover:bg-gray-750 transition-all text-sm font-medium"\<newline>'' @
     ''                        >\<newline>'' @
     ''                          Cancel\<newline>'' @
     ''                        </button>\<newline>'' @
     ''                        <button\<newline>'' @
     ''                          type="submit"\<newline>'' @
     ''                          className="px-6 py-2.5 rounded-lg bg-blue-600 hover:bg-blue-700 text-white transition-all text-sm font-medium shadow-sm hover:shadow-md"\<newline>'' @
     ''                        >\<newline>'' @
     ''                          Add Tire\<newline>'' @
     ''                        </button>\<newline>'' @
     ''                      </div>\<newline>'' @
     ''                    </form>\<newline>'' @
     ''                  </motion.div>\<newline>'' @
     ''                </div>\<newline>'' @
     ''              </div>\<newline>'' @
     ''            </div>\<newline>'' @
     ''          </AnimatePresence>\<newline>'' @
     ''        )}''\<close>

definition convert_to_modal_message :: string where
  \<open>convert_to_modal_message = ''Inventory page modal conversion completed!''\<close>

subsection \<open>The four substitutions\<close>

text \<open>
  \<^verbatim>\<open>re.sub(pattern, r'\1' + scroll_lock_effect, content, count=1)\<close>: the leftmost
  occurrence of the fragment is kept (it is group 1) and the effect is put after it.
\<close>

definition insert_scroll_lock :: "string \<Rightarrow> string" where
  "insert_scroll_lock content =
     (case find_sub scroll_lock_pattern content of
        None \<Rightarrow> content
      | Some i \<Rightarrow>
          take (i + length scroll_lock_pattern) content @ scroll_lock_effect
            @ drop (i + length scroll_lock_pattern) content)"

text \<open>
  \<^verbatim>\<open>re.sub(head + '.*?' + tail, new, s, flags=re.DOTALL)\<close> for two fragments
  \<open>head\<close> and \<open>tail\<close>, \<open>head\<close> not empty: a match starts at the leftmost
  occurrence of \<open>head\<close> that has an occurrence of \<open>tail\<close> somewhere after it, and ends
  with the first such occurrence of \<open>tail\<close>; the search goes on behind the match.
\<close>

function lazy_replace :: "string \<Rightarrow> string \<Rightarrow> string \<Rightarrow> string \<Rightarrow> string" where
  "lazy_replace head tail new s =
     (if head = [] \<or> s = [] then s
      else if prefix head s then
        (case find_sub tail (drop (length head) s) of
           Some k \<Rightarrow> new @ lazy_replace head tail new (drop (length head + k + length tail) s)
         | None \<Rightarrow> hd s # lazy_replace head tail new (tl s))
      else hd s # lazy_replace head tail new (tl s))"
  by pat_completeness auto
termination
  by (relation "measure (\<lambda>(head, tail, new, s). length s)") auto

declare lazy_replace.simps [simp del]

definition convert_to_modal :: "string \<Rightarrow> string" where
  "convert_to_modal content =
     lazy_replace old_buttons_head old_buttons_tail new_buttons
       (str_replace old_form_tag new_form_tag
         (str_replace old_form new_form
           (insert_scroll_lock content)))"

definition convert_to_modal_script :: "platform \<Rightarrow> world \<Rightarrow> world" where
  "convert_to_modal_script pf w =
     rewrite_text pf inventory_path convert_to_modal convert_to_modal_message w"

section \<open>update-inventory-edit.py\<close>

subsection \<open>The ten pairs of old and new text\<close>

definition start_editing_old :: string where
  \<open>start_editing_old =
     ''  function startEditingTire(tire: Tire) {\<newline>'' @
     ''    setEditingTireId(tire.id);\<newline>'' @
     ''    setFormData({\<newline>'' @
     ''      brand: tire.brand,\<newline>'' @
     ''      model: tire.model,\<newline>'' @
     ''      size: tire.size,\<newline>'' @
     ''      quantity: tire.quantity,\<newline>'' @
     ''      price: tire.price,\<newline>'' @
     ''      description: tire.description || '' @
     [CHR 0x27] @
     ''\',\<newline>'' @
     ''    });\<newline>'' @
     ''  }''\<close>

definition start_editing_new :: string where
  \<open>start_editing_new =
     ''  function startEditingTire(tire: Tire) {\<newline>'' @
     ''    setEditingTireId(tire.id);\<newline>'' @
     ''    setFormData({\<newline>'' @
     ''      brand: tire.brand,\<newline>'' @
     ''      model: tire.model,\<newline>'' @
     ''      size: tire.size,\<newline>'' @
     ''      quantity: tire.quantity,\<newline>'' @
     ''      price: tire.price,\<newline>'' @
     ''      description: tire.description || '' @
     [CHR 0x27] @
     ''\',\<newline>'' @
     ''    });\<newline>'' @
     ''    setShowForm(true);\<newline>'' @
     ''  }''\<close>

definition cancel_editing_old :: string where
  \<open>cancel_editing_old =
     ''  function cancelEditingTire() {\<newline>'' @
     ''    setEditingTireId(null);\<newline>'' @
     ''    setFormData({\<newline>'' @
     ''      brand: '' @
     [CHR 0x27] @
     ''\',\<newline>'' @
     ''      model: '' @
     [CHR 0x27] @
     ''\',\<newline>'' @
     ''      size: '' @
     [CHR 0x27] @
     ''\',\<newline>'' @
     ''      quantity: 0,\<newline>'' @
     ''      price: 0,\<newline>'' @
     ''      description: '' @
     [CHR 0x27] @
     ''\',\<newline>'' @
     ''    });\<newline>'' @
     ''  }''\<close>

definition cancel_editing_new :: string where
  \<open>cancel_editing_new =
     ''  function cancelEditingTire() {\<newline>'' @
     ''    setEditingTireId(null);\<newline>'' @
     ''    setShowForm(false);\<newline>'' @
     ''    setFormData({\<newline>'' @
     ''      brand: '' @
     [CHR 0x27] @
     ''\',\<newline>'' @
     ''      model: '' @
     [CHR 0x27] @
     ''\',\<newline>'' @
     ''      size: '' @
     [CHR 0x27] @
     ''\',\<newline>'' @
     ''      quantity: 0,\<newline>'' @
     ''      price: 0,\<newline>'' @
     ''      description: '' @
     [CHR 0x27] @
     ''\',\<newline>'' @
     ''    });\<newline>'' @
     ''  }''\<close>

definition save_edited_old :: string where
  \<open>save_edited_old =
     ''      setEditingTireId(null);\<newline>'' @
     ''      setFormData({\<newline>'' @
     ''        brand: '' @
     [CHR 0x27] @
     ''\',\<newline>'' @
     ''        model: '' @
     [CHR 0x27] @
     ''\',\<newline>'' @
     ''        size: '' @
     [CHR 0x27] @
     ''\',\<newline>'' @
     ''        quantity: 0,\<newline>'' @
     ''        price: 0,\<newline>'' @
     ''        description: '' @
     [CHR 0x27] @
     ''\',\<newline>'' @
     ''      });\<newline>'' @
     ''      loadInventory();''\<close>

definition save_edited_new :: string where
  \<open>save_edited_new =
     ''      setEditingTireId(null);\<newline>'' @
     ''      setShowForm(false);\<newline>'' @
     ''      setFormData({\<newline>'' @
     ''        brand: '' @
     [CHR 0x27] @
     ''\',\<newline>'' @
     ''        model: '' @
     [CHR 0x27] @
     ''\',\<newline>'' @
     ''        size: '' @
     [CHR 0x27] @
     ''\',\<newline>'' @
     ''        quantity: 0,\<newline>'' @
     ''        price: 0,\<newline>'' @
     ''        description: '' @
     [CHR 0x27] @
     ''\',\<newline>'' @
     ''      });\<newline>'' @
     ''      loadInventory();''\<close>

definition handle_submit_old :: string where
  \<open>handle_submit_old =
     ''  async function handleSubmit(e: React.FormEvent) {\<newline>'' @
     ''    e.preventDefault();\<newline>'' @
     ''    try {\<newline>'' @
     ''      const { error } = await supabase.from(\'inventory\').insert([formData]);\<newline>'' @
     ''\<newline>'' @
     ''      if (error) throw error;\<newline>'' @
     ''\<newline>'' @
     ''      setFormData({\<newline>'' @
     ''        brand: '' @
     [CHR 0x27] @
     ''\',\<newline>'' @
     ''        model: '' @
     [CHR 0x27] @
     ''\',\<newline>'' @
     ''        size: '' @
     [CHR 0x27] @
     ''\',\<newline>'' @
     ''        quantity: 0,\<newline>'' @
     ''        price: 0,\<newline>'' @
     ''        description: '' @
     [CHR 0x27] @
     ''\',\<newline>'' @
     ''      });\<newline>'' @
     ''      setShowForm(false);\<newline>'' @
     ''      loadInventory();\<newline>'' @
     ''    } catch (error) {\<newline>'' @
     ''      console.error(\'Error adding tire:\', error);\<newline>'' @
     ''      alert(\'Error adding tire\');\<newline>'' @
     ''    }\<newline>'' @
     ''  }''\<close>

definition handle_submit_new :: string where
  \<open>handle_submit_new =
     ''  async function handleSubmit(e: React.FormEvent) {\<newline>'' @
     ''    e.preventDefault();\<newline>'' @
     ''    try {\<newline>'' @
     ''      if (editingTireId) {\<newline>'' @
     ''        const { error } = await supabase\<newline>'' @
     ''          .from(\'inventory\')\<newline>'' @
     ''          .update(formData)\<newline>'' @
     ''          .eq(\'id\', editingTireId);\<newline>'' @
     ''        if (error) throw error;\<newline>'' @
     ''      } else {\<newline>'' @
     ''        const { error } = await supabase.from(\'inventory\').insert([formData]);\<newline>'' @
     ''        if (error) throw error;\<newline>'' @
     ''      }\<newline>'' @
     ''\<newline>'' @
     ''      setEditingTireId(null);\<newline>'' @
     ''      setFormData({\<newline>'' @
     ''        brand: '' @
     [CHR 0x27] @
     ''\',\<newline>'' @
     ''        model: '' @
     [CHR 0x27] @
     ''\',\<newline>'' @
     ''        size: '' @
     [CHR 0x27] @
     ''\',\<newline>'' @
     ''        quantity: 0,\<newline>'' @
     ''        price: 0,\<newline>'' @
     ''        description: '' @
     [CHR 0x27] @
     ''\',\<newline>'' @
     ''      });\<newline>'' @
     ''      setShowForm(false);\<newline>'' @
     ''      loadInventory();\<newline>'' @
     ''    } catch (error) {\<newline>'' @
     ''      console.error(`Error ${editingTireId ? \'updating\' : \'adding\'} tire:`, error);\<newline>'' @
     ''      alert(`Error ${editingTireId ? \'updating\' : \'adding\'} tire`);\<newline>'' @
     ''    }\<newline>'' @
     ''  }''\<close>

definition modal_title_old :: string where
  \<open>modal_title_old =
     ''                      <h2 id="modal-title" className="text-2xl font-semibold text-gray-900 dark:text-white">\<newline>'' @
     ''                        Add New Tire\<newline>'' @
     ''                      </h2>''\<close>

definition modal_title_new :: string where
  \<open>modal_title_new =
     ''                      <h2 id="modal-title" className="text-2xl font-semibold text-gray-900 dark:text-white">\<newline>'' @
     ''                        {editingTireId ? \'Edit Tire\' : \'Add New Tire\'}\<newline>'' @
     ''                      </h2>''\<close>

definition submit_text_old :: string where
  \<open>submit_text_old =
     ''                        >\<newline>'' @
     ''                          Add Tire\<newline>'' @
     ''                        </button>''\<close>

definition submit_text_new :: string where
  \<open>submit_text_new =
     ''                        >\<newline>'' @
     ''                          {editingTireId ? \'Update Tire\' : \'Add Tire\'}\<newline>'' @
     ''                        </button>''\<close>

definition cancel_button_old :: string where
  \<open>cancel_button_old =
     ''                        <button\<newline>'' @
     ''                          type="button"\<newline>'' @
     ''                          onClick={() => setShowForm(false)}\<newline>'' @
     ''                          className="px-6 py-2.5 rounded-lg border border-gray-300 dark:border-gray-700 bg-white dark:bg-gray-800 text-gray-700 dark:text-gray-300 hover:bg-gray-50 dark:hover:bg-gray-750 transition-all text-sm font-medium"\<newline>'' @
     ''                        >\<newline>'' @
     ''                          Cancel\<newline>'' @
     ''                        </button>''\<close>

definition cancel_button_new :: string where
  \<open>cancel_button_new =
     ''                        <button\<newline>'' @
     ''                          type="button"\<newline>'' @
     ''                          onClick={() => {\<newline>'' @
     ''                            setShowForm(false);\<newline>'' @
     ''                            setEditingTireId(null);\<newline>'' @
     ''                            setFormData({\<newline>'' @
     ''                              brand: '' @
     [CHR 0x27] @
     ''\',\<newline>'' @
     ''                              model: '' @
     [CHR 0x27] @
     ''\',\<newline>'' @
     ''                              size: '' @
     [CHR 0x27] @
     ''\',\<newline>'' @
     ''                              quantity: 0,\<newline>'' @
     ''                              price: 0,\<newline>'' @
     ''                              description: '' @
     [CHR 0x27] @
     ''\',\<newline>'' @
     ''                            });\<newline>'' @
     ''                          }}\<newline>'' @
     ''                          className="px-6 py-2.5 rounded-lg border border-gray-300 dark:border-gray-700 bg-white dark:bg-gray-800 text-gray-700 dark:text-gray-300 hover:bg-gray-50 dark:hover:bg-gray-750 transition-all text-sm font-medium"\<newline>'' @
     ''                        >\<newline>'' @
     ''                          Cancel\<newline>'' @
     ''                        </button>''\<close>

definition backdrop_old :: string where
  \<open>backdrop_old =
     ''              className="fixed inset-0 bg-black/60 backdrop-blur-sm z-50"\<newline>'' @
     ''              onClick={() => setShowForm(false)}\<newline>'' @
     ''              aria-hidden="true"''\<close>

definition backdrop_new :: string where
  \<open>backdrop_new =
     ''              className="fixed inset-0 bg-black/60 backdrop-blur-sm z-50"\<newline>'' @
     ''              onClick={() => {\<newline>'' @
     ''                setShowForm(false);\<newline>'' @
     ''                setEditingTireId(null);\<newline>'' @
     ''              }}\<newline>'' @
     ''              aria-hidden="true"''\<close>

definition x_button_old :: string where
  \<open>x_button_old =
     ''                      <button\<newline>'' @
     ''                        type="button"\<newline>'' @
     ''                        onClick={() => setShowForm(false)}\<newline>'' @
     ''                        className="p-2 hover:bg-gray-200 dark:hover:bg-gray-800 rounded-lg transition-colors"\<newline>'' @
     ''                      >\<newline>'' @
     ''                        <X size={20} className="text-gray-500 dark:text-gray-400" />\<newline>'' @
     ''                      </button>''\<close>

definition x_button_new :: string where
  \<open>x_button_new =
     ''                      <button\<newline>'' @
     ''                        type="button"\<newline>'' @
     ''                        onClick={() => {\<newline>'' @
     ''                          setShowForm(false);\<newline>'' @
     ''                          setEditingTireId(null);\<newline>'' @
     ''                        }}\<newline>'' @
     ''                        className="p-2 hover:bg-gray-200 dark:hover:bg-gray-800 rounded-lg transition-colors"\<newline>'' @
     ''                      >\<newline>'' @
     ''                        <X size={20} className="text-gray-500 dark:text-gray-400" />\<newline>'' @
     ''                      </button>''\<close>

definition escape_key_old :: string where
  \<open>escape_key_old =
     ''                  onKeyDown={(e) => {\<newline>'' @
     ''                    if (e.key === \'Escape\') {\<newline>'' @
     ''                      setShowForm(false);\<newline>'' @
     ''                    }\<newline>'' @
     ''                  }}''\<close>

definition escape_key_new :: string where
  \<open>escape_key_new =
     ''                  onKeyDown={(e) => {\<newline>'' @
     ''                    if (e.key === \'Escape\') {\<newline>'' @
     ''                      setShowForm(false);\<newline>'' @
     ''                      setEditingTireId(null);\<newline>'' @
     ''                    }\<newline>'' @
     ''                  }}''\<close>

definition update_inventory_edit_message :: string where
  \<open>update_inventory_edit_message = ''[OK] Inventory page updated to use modal for editing''\<close>

subsection \<open>The ten replacements\<close>

definition update_inventory_edit :: "string \<Rightarrow> string" where
  "update_inventory_edit content =
     str_replace escape_key_old escape_key_new
       (str_replace x_button_old x_button_new
         (str_replace backdrop_old backdrop_new
           (str_replace cancel_button_old cancel_button_new
             (str_replace submit_text_old submit_text_new
               (str_replace modal_title_old modal_title_new
                 (str_replace handle_submit_old handle_submit_new
                   (str_replace save_edited_old save_edited_new
                     (str_replace cancel_editing_old cancel_editing_new
                       (str_replace start_editing_old start_editing_new
                          content)))))))))"

definition update_inventory_edit_script :: "platform \<Rightarrow> world \<Rightarrow> world" where
  "update_inventory_edit_script pf w =
     rewrite_text pf inventory_path update_inventory_edit update_inventory_edit_message w"

section \<open>Example buffers\<close>

text \<open>
  A buffer with the form marker on its first two lines, ten more lines and a line with
  the closing text.
\<close>

definition two_marker_buffer :: "string list" where
  "two_marker_buffer =
     [form_marker @ ''\<newline>'', form_marker @ ''\<newline>'',
      ''1\<newline>'', ''2\<newline>'', ''3\<newline>'', ''4\<newline>'', ''5\<newline>'', ''6\<newline>'', ''7\<newline>'', ''8\<newline>'',
      ''9\<newline>'', ''10\<newline>'',
      form_closer @ ''\<newline>'']"



text \<open>A file that consists of the anchor line of step 2 of convert-modals.py.\<close>

definition anchor_only_file :: string where
  "anchor_only_file = supabase_anchor @ ''\<newline>''"


section \<open>Notions used in the statements\<close>

text \<open>
  The definitions of this section are not code of the repository: they name conditions
  that the theorems below speak about. A non-empty end of \<open>s\<close> is a beginning of
  \<open>t\<close>:
\<close>

fun overlaps :: "'a list \<Rightarrow> 'a list \<Rightarrow> bool" where
  "overlaps [] t = False"
| "overlaps (c # cs) t = (prefix (c # cs) t \<or> overlaps cs t)"

text \<open>
  The line terminators of a file are those of the platform: no carriage return at all on
  POSIX; on Windows every carriage return is followed by a line feed and every line feed
  follows a carriage return.
\<close>

fun crlf_only :: "string \<Rightarrow> bool" where
  "crlf_only [] = True"
| "crlf_only [c] = (c \<noteq> CR \<and> c \<noteq> LF)"
| "crlf_only (c # d # cs) =
     (if c = CR then d = LF \<and> crlf_only cs else c \<noteq> LF \<and> crlf_only (d # cs))"

fun native_newlines :: "platform \<Rightarrow> string \<Rightarrow> bool" where
  "native_newlines Posix s = (CR \<notin> set s)"
| "native_newlines Windows s = crlf_only s"

text \<open>The file at a path exists and is valid UTF-8, so that reading it raises nothing.\<close>

definition readable :: "filesystem \<Rightarrow> path \<Rightarrow> bool" where
  "readable fs p = (case fs p of None \<Rightarrow> False | Some bytes \<Rightarrow> utf8_valid bytes)"

text \<open>
  Three notions for the proofs about the loop that looks for the form section
  (convert-modals.py, lines 49 to 56). The value of \<^verbatim>\<open>form_start\<close> once line
  \<open>k\<close> has been looked at, if the loop gets that far: the last line up to \<open>k\<close> with the
  marker. Line \<open>k\<close> passes the test of the loop's second \<^verbatim>\<open>if\<close>: it contains the
  closing text and lies more than ten lines after that start. The value of
  \<^verbatim>\<open>form_start\<close> when the loop comes to line \<open>i\<close>.
\<close>

fun last_marker :: "string list \<Rightarrow> nat \<Rightarrow> nat option" where
  "last_marker lines 0 = (if py_in form_marker (lines ! 0) then Some 0 else None)"
| "last_marker lines (Suc k) =
     (if py_in form_marker (lines ! Suc k) then Some (Suc k) else last_marker lines k)"

definition closes :: "string list \<Rightarrow> nat \<Rightarrow> bool" where
  "closes lines k =
     (py_in form_closer (lines ! k)
      \<and> (case last_marker lines k of None \<Rightarrow> False | Some s \<Rightarrow> s + 10 < k))"

definition marker_before :: "string list \<Rightarrow> nat \<Rightarrow> nat option" where
  "marker_before lines i = (case i of 0 \<Rightarrow> None | Suc m \<Rightarrow> last_marker lines m)"

section \<open>Properties\<close>

subsection \<open>Searching\<close>

lemma py_in_sublist: "py_in sub s = sublist sub s"
  by (induction s) (auto simp: sublist_Cons_right)

lemma find_sub_None: "(find_sub sub s = None) = (\<not> py_in sub s)"
  by (induction s) auto

lemma find_sub_Some:
  "find_sub sub s = Some i \<Longrightarrow> i + length sub \<le> length s \<and> take (length sub) (drop i s) = sub"
proof (induction s arbitrary: i)
  case Nil
  then show ?case by (simp split: if_splits)
next
  case (Cons c cs)
  show ?case
  proof (cases "prefix sub (c # cs)")
    case True
    with Cons.prems have "i = 0" by simp
    moreover have "length sub \<le> length (c # cs)" using True by (rule prefix_length_le)
    moreover have "take (length sub) (c # cs) = sub" using True by (metis append_eq_conv_conj prefixE)
    ultimately show ?thesis by simp
  next
    case False
    with Cons.prems obtain j where j: "find_sub sub cs = Some j" "i = Suc j" by auto
    with Cons.IH [OF j(1)] show ?thesis by simp
  qed
qed

lemma find_line_None: "(find_line sub ls = None) = (\<forall>l \<in> set ls. \<not> py_in sub l)"
  by (induction ls) auto

lemma find_line_Some:
  "(find_line sub ls = Some i) =
     (i < length ls \<and> py_in sub (ls ! i) \<and> (\<forall>j<i. \<not> py_in sub (ls ! j)))"
proof (induction ls arbitrary: i)
  case Nil
  then show ?case by simp
next
  case (Cons l ls)
  show ?case
  proof (cases "py_in sub l")
    case True
    then show ?thesis by (cases i) auto
  next
    case False
    show ?thesis
    proof (cases i)
      case 0
      with False show ?thesis by simp
    next
      case (Suc k)
      with False Cons.IH [of k] show ?thesis
        by (auto simp: less_Suc_eq_0_disj)
    qed
  qed
qed

subsection \<open>The two-bound locators\<close>

lemma form_scan_inv:
  assumes "form_scan xs i st = (Some s, Some e)"
    and "xs = drop i lines"
    and "i \<le> length lines"
    and "\<And>t. st = Some t \<Longrightarrow>
           t < i \<and> py_in form_marker (lines ! t) \<and> (\<forall>j. t < j \<and> j < i \<longrightarrow> \<not> py_in form_marker (lines ! j))"
  shows "s + 11 < e \<and> e \<le> length lines \<and> py_in form_marker (lines ! s)
         \<and> (\<forall>j. s < j \<and> j < e \<longrightarrow> \<not> py_in form_marker (lines ! j))
         \<and> py_in form_closer (lines ! (e - 1))"
  using assms
proof (induction xs arbitrary: i st)
  case Nil
  then show ?case by simp
next
  case (Cons l rest)
  have i: "i < length lines" using Cons.prems(2,3)
    by (metis drop_all linorder_not_less list.distinct(1))
  have l: "l = lines ! i" and rest: "rest = drop (Suc i) lines"
    using Cons.prems(2) i by (metis Cons_nth_drop_Suc list.inject)+
  define st' where "st' = (if py_in form_marker l then Some i else st)"
  have inv': "\<And>t. st' = Some t \<Longrightarrow>
           t < Suc i \<and> py_in form_marker (lines ! t) \<and> (\<forall>j. t < j \<and> j < Suc i \<longrightarrow> \<not> py_in form_marker (lines ! j))"
  proof -
    fix t assume t: "st' = Some t"
    show "t < Suc i \<and> py_in form_marker (lines ! t) \<and> (\<forall>j. t < j \<and> j < Suc i \<longrightarrow> \<not> py_in form_marker (lines ! j))"
    proof (cases "py_in form_marker l")
      case True
      with t have "t = i" by (simp add: st'_def)
      with True l show ?thesis by auto
    next
      case False
      with t have "st = Some t" by (simp add: st'_def)
      from Cons.prems(4) [OF this] False l show ?thesis
        by (auto simp: less_Suc_eq)
    qed
  qed
  show ?case
  proof (cases st')
    case None
    with Cons.prems(1) have "form_scan rest (Suc i) st' = (Some s, Some e)"
      by (simp add: st'_def Let_def)
    from Cons.IH [OF this rest _ inv'] i show ?thesis by simp
  next
    case (Some t)
    show ?thesis
    proof (cases "py_in form_closer l \<and> i > t + 10")
      case True
      with Some Cons.prems(1) have "s = t" "e = i + 1"
        by (auto simp: st'_def Let_def split: if_splits)
      with inv' [OF Some] True i l show ?thesis by auto
    next
      case False
      with Some Cons.prems(1) have "form_scan rest (Suc i) st' = (Some s, Some e)"
        by (auto simp: st'_def Let_def split: if_splits)
      from Cons.IH [OF this rest _ inv'] i show ?thesis by simp
    qed
  qed
qed

lemma locate_form_Some:
  assumes "locate_form lines = (Some s, Some e)"
  shows "s + 11 < e \<and> e \<le> length lines \<and> py_in form_marker (lines ! s)
         \<and> (\<forall>j. s < j \<and> j < e \<longrightarrow> \<not> py_in form_marker (lines ! j))
         \<and> py_in form_closer (lines ! (e - 1))"
  using form_scan_inv [of lines 0 None s e lines] assms by (simp add: locate_form_def)







subsection \<open>The form loop, line by line\<close>

text \<open>
  The loop returns at the first line that passes its test, with the start it has then;
  when no line passes, it finds no end.
\<close>

lemma last_marker_step:
  "(if py_in form_marker (lines ! i) then Some i else marker_before lines i) = last_marker lines i"
  by (cases i) (simp_all add: marker_before_def)

lemma form_scan_step:
  assumes "i < length lines"
  shows "form_scan (drop i lines) i (marker_before lines i) =
     (if closes lines i then (last_marker lines i, Some (Suc i))
      else form_scan (drop (Suc i) lines) (Suc i) (marker_before lines (Suc i)))"
proof -
  have d: "drop i lines = lines ! i # drop (Suc i) lines"
    using assms by (simp add: Cons_nth_drop_Suc)
  have n: "marker_before lines (Suc i) = last_marker lines i"
    by (simp add: marker_before_def)
  show ?thesis
    unfolding d n
    by (cases "last_marker lines i")
      (simp_all add: Let_def last_marker_step closes_def)
qed

lemma form_scan_found:
  assumes "k < length lines" and "closes lines k"
  shows "i \<le> k \<Longrightarrow> (\<forall>j. i \<le> j \<and> j < k \<longrightarrow> \<not> closes lines j) \<Longrightarrow>
     form_scan (drop i lines) i (marker_before lines i) = (last_marker lines k, Some (Suc k))"
proof (induction "k - i" arbitrary: i)
  case 0
  then have "i = k" by simp
  with assms show ?case by (simp add: form_scan_step)
next
  case (Suc n)
  then have lt: "i < k" by simp
  with Suc.prems have no: "\<not> closes lines i" by simp
  have "i < length lines" using lt assms(1) by simp
  then have "form_scan (drop i lines) i (marker_before lines i)
      = form_scan (drop (Suc i) lines) (Suc i) (marker_before lines (Suc i))"
    using no by (simp add: form_scan_step)
  also have "\<dots> = (last_marker lines k, Some (Suc k))"
    using Suc.hyps(2) lt Suc.prems(2) by (intro Suc.hyps(1)) auto
  finally show ?case .
qed

lemma form_scan_not_found:
  "i \<le> length lines \<Longrightarrow> (\<forall>j. i \<le> j \<and> j < length lines \<longrightarrow> \<not> closes lines j) \<Longrightarrow>
     form_scan (drop i lines) i (marker_before lines i) = (marker_before lines (length lines), None)"
proof (induction "length lines - i" arbitrary: i)
  case 0
  then have "i = length lines" by simp
  then show ?case by simp
next
  case (Suc n)
  then have lt: "i < length lines" by simp
  with Suc.prems have no: "\<not> closes lines i" by simp
  have "form_scan (drop i lines) i (marker_before lines i)
      = form_scan (drop (Suc i) lines) (Suc i) (marker_before lines (Suc i))"
    using lt no by (simp add: form_scan_step)
  also have "\<dots> = (marker_before lines (length lines), None)"
    using Suc.hyps(2) lt Suc.prems(2) by (intro Suc.hyps(1)) auto
  finally show ?case .
qed

lemma last_marker_None:
  "(last_marker lines k = None) = (\<forall>j\<le>k. \<not> py_in form_marker (lines ! j))"
  by (induction k) (auto simp: le_Suc_eq)

lemma last_marker_Some:
  "(last_marker lines k = Some s) =
     (s \<le> k \<and> py_in form_marker (lines ! s)
      \<and> (\<forall>j. s < j \<and> j \<le> k \<longrightarrow> \<not> py_in form_marker (lines ! j)))"
proof (induction k)
  case 0
  show ?case by auto
next
  case (Suc k)
  show ?case
  proof (cases "py_in form_marker (lines ! Suc k)")
    case True
    show ?thesis
    proof
      assume "last_marker lines (Suc k) = Some s"
      with True have "s = Suc k" by simp
      with True show "s \<le> Suc k \<and> py_in form_marker (lines ! s)
          \<and> (\<forall>j. s < j \<and> j \<le> Suc k \<longrightarrow> \<not> py_in form_marker (lines ! j))"
        by auto
    next
      assume r: "s \<le> Suc k \<and> py_in form_marker (lines ! s)
          \<and> (\<forall>j. s < j \<and> j \<le> Suc k \<longrightarrow> \<not> py_in form_marker (lines ! j))"
      have "\<not> s < Suc k"
      proof
        assume "s < Suc k"
        with r have "\<not> py_in form_marker (lines ! Suc k)" by blast
        with True show False by simp
      qed
      with r have "s = Suc k" by simp
      with True show "last_marker lines (Suc k) = Some s" by simp
    qed
  next
    case False
    then have step: "last_marker lines (Suc k) = last_marker lines k" by simp
    show ?thesis
    proof
      assume "last_marker lines (Suc k) = Some s"
      then have "last_marker lines k = Some s" by (simp only: step)
      then have a: "s \<le> k" "py_in form_marker (lines ! s)"
        "\<forall>j. s < j \<and> j \<le> k \<longrightarrow> \<not> py_in form_marker (lines ! j)"
        unfolding Suc.IH by blast+
      have "\<forall>j. s < j \<and> j \<le> Suc k \<longrightarrow> \<not> py_in form_marker (lines ! j)"
      proof (intro allI impI)
        fix j assume j: "s < j \<and> j \<le> Suc k"
        show "\<not> py_in form_marker (lines ! j)"
        proof (cases "j = Suc k")
          case True
          with False show ?thesis by simp
        next
          case False
          with j have "s < j \<and> j \<le> k" by simp
          with a(3) show ?thesis by blast
        qed
      qed
      with a show "s \<le> Suc k \<and> py_in form_marker (lines ! s)
          \<and> (\<forall>j. s < j \<and> j \<le> Suc k \<longrightarrow> \<not> py_in form_marker (lines ! j))"
        by simp
    next
      assume r: "s \<le> Suc k \<and> py_in form_marker (lines ! s)
          \<and> (\<forall>j. s < j \<and> j \<le> Suc k \<longrightarrow> \<not> py_in form_marker (lines ! j))"
      have "s \<noteq> Suc k" using r False by auto
      with r have "s \<le> k" by simp
      moreover have "\<forall>j. s < j \<and> j \<le> k \<longrightarrow> \<not> py_in form_marker (lines ! j)"
        using r by simp
      ultimately have "last_marker lines k = Some s"
        unfolding Suc.IH using r by blast
      then show "last_marker lines (Suc k) = Some s" by (simp only: step)
    qed
  qed
qed

lemma locate_form_closes:
  "(locate_form lines = (Some s, Some e)) =
     (\<exists>k. e = Suc k \<and> k < length lines \<and> closes lines k \<and> (\<forall>j<k. \<not> closes lines j)
        \<and> last_marker lines k = Some s)"
proof
  assume r: "locate_form lines = (Some s, Some e)"
  show "\<exists>k. e = Suc k \<and> k < length lines \<and> closes lines k \<and> (\<forall>j<k. \<not> closes lines j)
        \<and> last_marker lines k = Some s"
  proof (cases "\<exists>k. k < length lines \<and> closes lines k")
    case True
    define k where "k = (LEAST k. k < length lines \<and> closes lines k)"
    from True have k: "k < length lines \<and> closes lines k"
      unfolding k_def by (rule LeastI_ex)
    have least: "\<forall>j<k. \<not> closes lines j"
    proof (intro allI impI)
      fix j assume "j < k"
      then have "\<not> (j < length lines \<and> closes lines j)"
        unfolding k_def by (rule not_less_Least)
      moreover have "j < length lines" using \<open>j < k\<close> k by simp
      ultimately show "\<not> closes lines j" by simp
    qed
    have kl: "k < length lines" and kc: "closes lines k" using k by simp_all
    have none: "\<forall>j. 0 \<le> j \<and> j < k \<longrightarrow> \<not> closes lines j" using least by simp
    have "form_scan (drop 0 lines) 0 (marker_before lines 0) = (last_marker lines k, Some (Suc k))"
      using kl kc le0 none by (rule form_scan_found)
    then have "locate_form lines = (last_marker lines k, Some (Suc k))"
      by (simp add: locate_form_def marker_before_def)
    with r have "last_marker lines k = Some s" "e = Suc k" by simp_all
    with kl kc least show ?thesis by blast
  next
    case False
    then have none: "\<forall>j. 0 \<le> j \<and> j < length lines \<longrightarrow> \<not> closes lines j" by simp
    have "form_scan (drop 0 lines) 0 (marker_before lines 0)
        = (marker_before lines (length lines), None)"
      using le0 none by (rule form_scan_not_found)
    then have "snd (locate_form lines) = None"
      by (simp add: locate_form_def marker_before_def)
    with r show ?thesis by simp
  qed
next
  assume "\<exists>k. e = Suc k \<and> k < length lines \<and> closes lines k \<and> (\<forall>j<k. \<not> closes lines j)
        \<and> last_marker lines k = Some s"
  then obtain k where k: "e = Suc k" "k < length lines" "closes lines k"
    "\<forall>j<k. \<not> closes lines j" "last_marker lines k = Some s"
    by blast
  have none: "\<forall>j. 0 \<le> j \<and> j < k \<longrightarrow> \<not> closes lines j" using k(4) by simp
  have "form_scan (drop 0 lines) 0 (marker_before lines 0) = (last_marker lines k, Some (Suc k))"
    using k(2) k(3) le0 none by (rule form_scan_found)
  then show "locate_form lines = (Some s, Some e)"
    using k(1) k(5) by (simp add: locate_form_def marker_before_def)
qed

lemma closes_iff:
  "closes lines k =
     (py_in form_closer (lines ! k)
      \<and> (\<exists>t. t + 10 < k \<and> py_in form_marker (lines ! t)
            \<and> (\<forall>j. t < j \<and> j \<le> k \<longrightarrow> \<not> py_in form_marker (lines ! j))))"
proof (cases "last_marker lines k")
  case None
  then have no: "\<forall>j\<le>k. \<not> py_in form_marker (lines ! j)" by (simp only: last_marker_None)
  have "\<not> closes lines k" using None by (simp add: closes_def)
  moreover have "\<not> (\<exists>t. t + 10 < k \<and> py_in form_marker (lines ! t)
            \<and> (\<forall>j. t < j \<and> j \<le> k \<longrightarrow> \<not> py_in form_marker (lines ! j)))"
  proof
    assume "\<exists>t. t + 10 < k \<and> py_in form_marker (lines ! t)
            \<and> (\<forall>j. t < j \<and> j \<le> k \<longrightarrow> \<not> py_in form_marker (lines ! j))"
    then obtain t where t: "t + 10 < k" "py_in form_marker (lines ! t)" by blast
    then have "t \<le> k" by simp
    with no t(2) show False by blast
  qed
  ultimately show ?thesis by blast
next
  case (Some s)
  then have s: "s \<le> k" "py_in form_marker (lines ! s)"
    "\<forall>j. s < j \<and> j \<le> k \<longrightarrow> \<not> py_in form_marker (lines ! j)"
    unfolding last_marker_Some by blast+
  have c: "closes lines k = (py_in form_closer (lines ! k) \<and> s + 10 < k)"
    using Some by (simp add: closes_def)
  show ?thesis
  proof
    assume "closes lines k"
    then have "py_in form_closer (lines ! k)" "s + 10 < k" by (simp_all only: c)
    with s(2,3) show "py_in form_closer (lines ! k)
      \<and> (\<exists>t. t + 10 < k \<and> py_in form_marker (lines ! t)
            \<and> (\<forall>j. t < j \<and> j \<le> k \<longrightarrow> \<not> py_in form_marker (lines ! j)))"
      by blast
  next
    assume "py_in form_closer (lines ! k)
      \<and> (\<exists>t. t + 10 < k \<and> py_in form_marker (lines ! t)
            \<and> (\<forall>j. t < j \<and> j \<le> k \<longrightarrow> \<not> py_in form_marker (lines ! j)))"
    then obtain t where cl: "py_in form_closer (lines ! k)"
      and t: "t + 10 < k" "py_in form_marker (lines ! t)"
        "\<forall>j. t < j \<and> j \<le> k \<longrightarrow> \<not> py_in form_marker (lines ! j)"
      by blast
    have "\<not> t < s"
    proof
      assume "t < s"
      with s(1) have "t < s \<and> s \<le> k" by simp
      with t(3) have "\<not> py_in form_marker (lines ! s)" by blast
      with s(2) show False by simp
    qed
    moreover have "\<not> s < t"
    proof
      assume "s < t"
      with t(1) have "s < t \<and> t \<le> k" by simp
      with s(3) have "\<not> py_in form_marker (lines ! t)" by blast
      with t(2) show False by simp
    qed
    ultimately have "t = s" by simp
    with t(1) cl show "closes lines k" by (simp only: c simp_thms)
  qed
qed

lemma locate_form_iff:
  "(locate_form lines = (Some s, Some e)) =
     (s + 11 < e \<and> e \<le> length lines \<and> py_in form_marker (lines ! s)
      \<and> (\<forall>j. s < j \<and> j < e \<longrightarrow> \<not> py_in form_marker (lines ! j))
      \<and> py_in form_closer (lines ! (e - 1))
      \<and> (\<forall>k t. k < e - 1 \<and> t + 10 < k \<and> py_in form_closer (lines ! k)
            \<and> py_in form_marker (lines ! t)
          \<longrightarrow> (\<exists>j. t < j \<and> j \<le> k \<and> py_in form_marker (lines ! j))))"
  (is "?L = ?R")
proof
  assume ?L
  then obtain k where k: "e = Suc k" "k < length lines" "closes lines k"
    "\<forall>j<k. \<not> closes lines j" "last_marker lines k = Some s"
    unfolding locate_form_closes by blast
  from k(5) have s: "s \<le> k" "py_in form_marker (lines ! s)"
    "\<forall>j. s < j \<and> j \<le> k \<longrightarrow> \<not> py_in form_marker (lines ! j)"
    unfolding last_marker_Some by blast+
  from k(3,5) have c: "py_in form_closer (lines ! k)" "s + 10 < k"
    by (simp_all add: closes_def)
  have 1: "s + 11 < e" using k(1) c(2) by simp
  have 2: "e \<le> length lines" using k(1,2) by simp
  have 3: "\<forall>j. s < j \<and> j < e \<longrightarrow> \<not> py_in form_marker (lines ! j)"
    using s(3) k(1) by (simp add: less_Suc_eq_le)
  have 4: "py_in form_closer (lines ! (e - 1))" using c(1) k(1) by simp
  have 5: "\<forall>m t. m < e - 1 \<and> t + 10 < m \<and> py_in form_closer (lines ! m)
            \<and> py_in form_marker (lines ! t)
          \<longrightarrow> (\<exists>j. t < j \<and> j \<le> m \<and> py_in form_marker (lines ! j))"
  proof (intro allI impI)
    fix m t
    assume a: "m < e - 1 \<and> t + 10 < m \<and> py_in form_closer (lines ! m)
            \<and> py_in form_marker (lines ! t)"
    then have "m < k" using k(1) by simp
    with k(4) have "\<not> closes lines m" by blast
    then have "\<not> (py_in form_closer (lines ! m)
      \<and> (\<exists>t. t + 10 < m \<and> py_in form_marker (lines ! t)
            \<and> (\<forall>j. t < j \<and> j \<le> m \<longrightarrow> \<not> py_in form_marker (lines ! j))))"
      unfolding closes_iff .
    with a show "\<exists>j. t < j \<and> j \<le> m \<and> py_in form_marker (lines ! j)" by blast
  qed
  from 1 2 s(2) 3 4 5 show ?R by (intro conjI)
next
  assume r: ?R
  then have r1: "s + 11 < e" and r2: "e \<le> length lines"
    and r3: "py_in form_marker (lines ! s)"
    and r4: "\<forall>j. s < j \<and> j < e \<longrightarrow> \<not> py_in form_marker (lines ! j)"
    and r5: "py_in form_closer (lines ! (e - 1))"
    and r6: "\<forall>k t. k < e - 1 \<and> t + 10 < k \<and> py_in form_closer (lines ! k)
            \<and> py_in form_marker (lines ! t)
          \<longrightarrow> (\<exists>j. t < j \<and> j \<le> k \<and> py_in form_marker (lines ! j))"
    by blast+
  from r1 obtain k where e: "e = Suc k" by (cases e) simp_all
  have kl: "k < length lines" using r2 e by simp
  have ck: "closes lines k"
  proof -
    have "py_in form_closer (lines ! k)" using r5 e by simp
    moreover have "s + 10 < k" using r1 e by simp
    moreover have "\<forall>j. s < j \<and> j \<le> k \<longrightarrow> \<not> py_in form_marker (lines ! j)"
      using r4 e by (simp add: less_Suc_eq_le)
    ultimately show ?thesis unfolding closes_iff using r3 by blast
  qed
  have nc: "\<forall>j<k. \<not> closes lines j"
  proof (intro allI impI notI)
    fix j assume j: "j < k" and "closes lines j"
    then obtain t where t: "py_in form_closer (lines ! j)" "t + 10 < j"
      "py_in form_marker (lines ! t)"
      "\<forall>i. t < i \<and> i \<le> j \<longrightarrow> \<not> py_in form_marker (lines ! i)"
      unfolding closes_iff by blast
    from j e have "j < e - 1" by simp
    with t have "j < e - 1 \<and> t + 10 < j \<and> py_in form_closer (lines ! j)
            \<and> py_in form_marker (lines ! t)" by simp
    with r6 have "\<exists>i. t < i \<and> i \<le> j \<and> py_in form_marker (lines ! i)" by blast
    with t(4) show False by blast
  qed
  have lm: "last_marker lines k = Some s"
  proof -
    have "s \<le> k" using r1 e by simp
    moreover have "\<forall>j. s < j \<and> j \<le> k \<longrightarrow> \<not> py_in form_marker (lines ! j)"
      using r4 e by (simp add: less_Suc_eq_le)
    ultimately show ?thesis unfolding last_marker_Some using r3 by blast
  qed
  from e kl ck nc lm show ?L unfolding locate_form_closes by blast
qed

subsection \<open>Replacing a fragment everywhere\<close>

lemma overlaps_iff: "overlaps s t = (\<exists>u. suffix u s \<and> u \<noteq> [] \<and> prefix u t)"
proof (induction s)
  case Nil
  then show ?case by simp
next
  case (Cons c cs)
  show ?case
    by (auto simp: Cons.IH suffix_Cons)
qed

lemma str_replace_Nil: "old \<noteq> [] \<Longrightarrow> str_replace old new [] = []"
  by (simp add: str_replace.simps)

lemma str_replace_match:
  "old \<noteq> [] \<Longrightarrow> prefix old s \<Longrightarrow>
     str_replace old new s = new @ str_replace old new (drop (length old) s)"
  by (subst str_replace.simps) auto

lemma str_replace_step:
  "old \<noteq> [] \<Longrightarrow> \<not> prefix old (c # cs) \<Longrightarrow>
     str_replace old new (c # cs) = c # str_replace old new cs"
  by (subst str_replace.simps) auto

lemma prefix_append_long:
  "prefix xs (ys @ zs) \<Longrightarrow> length ys < length xs \<Longrightarrow> \<exists>us. xs = ys @ us \<and> us \<noteq> [] \<and> prefix us zs"
  by (auto simp: prefix_append dest: prefix_length_le)

lemma prefix_append_short:
  "prefix xs (ys @ zs) \<Longrightarrow> length xs \<le> length ys \<Longrightarrow> prefix xs ys"
  by (auto simp: prefix_append)

lemma replace_prefix_was_there:
  assumes "old \<noteq> []" and "\<not> overlaps (tl old) new" and "length old \<le> length new"
    and "length t < length old" and "prefix old (t @ str_replace old new s)"
  shows "prefix old (t @ s)"
  using assms
proof (induction old new s arbitrary: t rule: str_replace.induct)
  case (1 old new s)
  note nz = \<open>old \<noteq> []\<close> and no = \<open>\<not> overlaps (tl old) new\<close>
    and le = \<open>length old \<le> length new\<close> and lt = \<open>length t < length old\<close>
    and pre = \<open>prefix old (t @ str_replace old new s)\<close>
  show ?case
  proof (cases "s = []")
    case True
    have "str_replace old new [] = []" using nz by (rule str_replace_Nil)
    with pre True show ?thesis by simp
  next
    case ne: False
    show ?thesis
    proof (cases "prefix old s")
      case True
      show ?thesis
      proof (cases "t = []")
        case True
        with \<open>prefix old s\<close> show ?thesis by simp
      next
        case False
        have R: "str_replace old new s = new @ str_replace old new (drop (length old) s)"
          using nz True by (rule str_replace_match)
        have "prefix old (t @ new @ str_replace old new (drop (length old) s))"
          using pre unfolding R .
        from prefix_append_long [OF this lt]
        obtain v where v: "old = t @ v" "v \<noteq> []"
          "prefix v (new @ str_replace old new (drop (length old) s))"
          by blast
        have "length old = length t + length v" by (subst v(1)) simp
        then have "length v \<le> length new" using le by simp
        with v(3) have "prefix v new" by (rule prefix_append_short)
        moreover have "tl old = tl t @ v" using False by (subst v(1)) simp
        then have "suffix v (tl old)" by (simp only: suffix_def) blast
        ultimately have "overlaps (tl old) new" using v(2) by (simp only: overlaps_iff) blast
        with no show ?thesis by simp
      qed
    next
      case False
      obtain c cs where s: "s = c # cs" using ne by (cases s) auto
      have "\<not> prefix old (c # cs)" using False unfolding s .
      with nz have "str_replace old new (c # cs) = c # str_replace old new cs"
        by (rule str_replace_step)
      with pre have pre': "prefix old ((t @ [c]) @ str_replace old new cs)"
        by (simp add: s)
      have tl: "tl s = cs" by (simp add: s)
      show ?thesis
      proof (cases "length (t @ [c]) < length old")
        case True
        have "prefix old ((t @ [c]) @ tl s)"
          using nz ne False nz no le True pre' [folded tl] by (rule "1.IH"(2))
        then show ?thesis by (simp add: s)
      next
        case False
        with lt have "length old \<le> length (t @ [c])" by simp
        with pre' have "prefix old (t @ [c])" by (rule prefix_append_short)
        then have "prefix old ((t @ [c]) @ cs)" by (rule prefix_prefix)
        then show ?thesis by (simp add: s)
      qed
    qed
  qed
qed

lemma py_in_append:
  "py_in sub (a @ b) \<Longrightarrow> py_in sub a \<or> py_in sub b \<or> overlaps a sub"
  by (auto simp: py_in_sublist sublist_append overlaps_iff)

lemma replace_removes_old:
  assumes "old \<noteq> []" and "\<not> py_in old new" and "\<not> overlaps new old"
    and "\<not> overlaps (tl old) new" and "length old \<le> length new"
  shows "\<not> py_in old (str_replace old new s)"
  using assms
proof (induction old new s rule: str_replace.induct)
  case (1 old new s)
  note nz = \<open>old \<noteq> []\<close> and n1 = \<open>\<not> py_in old new\<close> and n2 = \<open>\<not> overlaps new old\<close>
    and n3 = \<open>\<not> overlaps (tl old) new\<close> and le = \<open>length old \<le> length new\<close>
  show ?case
  proof (cases "s = []")
    case True
    have "str_replace old new [] = []" using nz by (rule str_replace_Nil)
    with nz True show ?thesis by simp
  next
    case ne: False
    show ?thesis
    proof (cases "prefix old s")
      case True
      have IH: "\<not> py_in old (str_replace old new (drop (length old) s))"
        using nz ne True nz n1 n2 n3 le by (rule "1.IH"(1))
      have R: "str_replace old new s = new @ str_replace old new (drop (length old) s)"
        using nz True by (rule str_replace_match)
      have "\<not> py_in old (new @ str_replace old new (drop (length old) s))"
        using py_in_append [of old new "str_replace old new (drop (length old) s)"] IH n1 n2
        by blast
      then show ?thesis unfolding R .
    next
      case False
      obtain c cs where s: "s = c # cs" using ne by (cases s) auto
      have tl: "tl s = cs" by (simp add: s)
      have "\<not> prefix old (c # cs)" using False unfolding s .
      with nz have R: "str_replace old new (c # cs) = c # str_replace old new cs"
        by (rule str_replace_step)
      have "\<not> py_in old (str_replace old new (tl s))"
        using nz ne False nz n1 n2 n3 le by (rule "1.IH"(2))
      then have IH: "\<not> py_in old (str_replace old new cs)" unfolding tl .
      have "\<not> prefix old (str_replace old new s)"
      proof
        assume "prefix old (str_replace old new s)"
        then have p: "prefix old ([] @ str_replace old new s)" by simp
        have "length ([] :: string) < length old" using nz by simp
        with nz n3 le have "prefix old ([] @ s)"
          using p by (rule replace_prefix_was_there)
        with False show False by simp
      qed
      then have "\<not> prefix old (c # str_replace old new cs)" unfolding s R .
      with IH have "\<not> py_in old (c # str_replace old new cs)" by simp
      then show ?thesis unfolding s R .
    qed
  qed
qed

subsection \<open>Facts about the fixed texts\<close>

lemma scroll_lock_effect_length: "length scroll_lock_effect = 233"
  unfolding scroll_lock_effect_def by simp

subsection \<open>Reading and writing\<close>

lemma start_simps:
  "disk (start fs) = fs" "stdout (start fs) = []" "raised (start fs) = None"
  by (simp_all add: start_def)

lemma concat_split_lines: "concat (split_lines s) = s"
  by (induction s) (auto split: list.splits)

lemma write_newlines_Posix: "write_newlines Posix s = s"
  by (induction s) (simp_all add: write_newlines_def)

lemma universal_newlines_no_CR: "CR \<notin> set s \<Longrightarrow> universal_newlines s = s"
  by (induction s rule: universal_newlines.induct) auto

lemma CR_neq_LF: "CR \<noteq> LF"
  by (simp add: CR_def LF_def)

lemma write_newlines_Cons:
  "write_newlines pf (c # s) = (if c = LF then linesep pf else [c]) @ write_newlines pf s"
  by (simp add: write_newlines_def)

lemma crlf_roundtrip: "crlf_only s \<Longrightarrow> write_newlines Windows (universal_newlines s) = s"
proof (induction s rule: universal_newlines.induct)
  case 1
  then show ?case by (simp add: write_newlines_def)
next
  case (2 c)
  then show ?case by (simp add: write_newlines_def)
next
  case (3 c d cs)
  then show ?case
    by (auto simp: write_newlines_Cons CR_neq_LF split: if_splits)
qed

lemma native_roundtrip:
  "native_newlines pf s \<Longrightarrow> write_newlines pf (universal_newlines s) = s"
  by (cases pf) (simp_all add: write_newlines_Posix universal_newlines_no_CR crlf_roundtrip)

lemma read_text_Some:
  "fs p = Some bytes \<Longrightarrow> utf8_valid bytes \<Longrightarrow> read_text fs p = Inr (universal_newlines bytes)"
  by (simp add: read_text_def)

lemma read_text_unreadable:
  "\<not> readable fs p \<Longrightarrow>
     read_text fs p = Inl (if fs p = None then FileNotFoundError else UnicodeDecodeError)"
  by (auto simp: read_text_def readable_def split: option.splits)

lemma rewrite_lines_readable:
  "disk w p = Some bytes \<Longrightarrow> utf8_valid bytes \<Longrightarrow>
     rewrite_lines pf p patch msg w =
       w\<lparr>disk := (disk w)(p \<mapsto>
             write_newlines pf (concat (patch (split_lines (universal_newlines bytes))))),
         stdout := stdout w @ [msg]\<rparr>"
  by (simp add: rewrite_lines_def read_lines_def read_text_Some write_lines_def write_text_def
      print_def)

lemma rewrite_lines_unreadable:
  "\<not> readable (disk w) p \<Longrightarrow>
     rewrite_lines pf p patch msg w =
       w\<lparr>raised := Some (if disk w p = None then FileNotFoundError else UnicodeDecodeError)\<rparr>"
  by (simp add: rewrite_lines_def read_lines_def read_text_unreadable)

lemma rewrite_text_readable:
  "disk w p = Some bytes \<Longrightarrow> utf8_valid bytes \<Longrightarrow>
     rewrite_text pf p patch msg w =
       w\<lparr>disk := (disk w)(p \<mapsto> write_newlines pf (patch (universal_newlines bytes))),
         stdout := stdout w @ [msg]\<rparr>"
  by (simp add: rewrite_text_def read_text_Some write_text_def print_def)

lemma rewrite_text_unreadable:
  "\<not> readable (disk w) p \<Longrightarrow>
     rewrite_text pf p patch msg w =
       w\<lparr>raised := Some (if disk w p = None then FileNotFoundError else UnicodeDecodeError)\<rparr>"
  by (simp add: rewrite_text_def read_text_unreadable)

lemma readable_cases:
  obtains bytes where "fs p = Some bytes" "utf8_valid bytes" | "\<not> readable fs p"
  by (cases "fs p") (auto simp: readable_def)

lemma rewrite_lines_frame: "q \<noteq> p \<Longrightarrow> disk (rewrite_lines pf p patch msg w) q = disk w q"
  by (rule readable_cases [of "disk w" p])
    (simp_all add: rewrite_lines_readable rewrite_lines_unreadable)

lemma rewrite_text_frame: "q \<noteq> p \<Longrightarrow> disk (rewrite_text pf p patch msg w) q = disk w q"
  by (rule readable_cases [of "disk w" p])
    (simp_all add: rewrite_text_readable rewrite_text_unreadable)

text \<open>What a rewrite does depends on the file at its path and on nothing else on the disk.\<close>

lemma rewrite_lines_depends_on_target:
  assumes "disk w p = disk w' p"
  shows "disk (rewrite_lines pf p patch msg w) p = disk (rewrite_lines pf p patch msg w') p
    \<and> stdout (rewrite_lines pf p patch msg w) = stdout w @ (if readable (disk w) p then [msg] else [])
    \<and> stdout (rewrite_lines pf p patch msg w') = stdout w' @ (if readable (disk w) p then [msg] else [])
    \<and> (readable (disk w) p \<longrightarrow> raised (rewrite_lines pf p patch msg w) = raised w
          \<and> raised (rewrite_lines pf p patch msg w') = raised w')
    \<and> (\<not> readable (disk w) p \<longrightarrow> raised (rewrite_lines pf p patch msg w)
          = raised (rewrite_lines pf p patch msg w') \<and> raised (rewrite_lines pf p patch msg w) \<noteq> None)"
proof (rule readable_cases [of "disk w" p])
  fix bytes assume b: "disk w p = Some bytes" "utf8_valid bytes"
  then have r: "readable (disk w) p" by (simp add: readable_def)
  from b assms have b': "disk w' p = Some bytes" by simp
  show ?thesis
    using r by (simp add: rewrite_lines_readable [OF b] rewrite_lines_readable [OF b' b(2)])
next
  assume n: "\<not> readable (disk w) p"
  then have n': "\<not> readable (disk w') p" using assms by (simp add: readable_def)
  show ?thesis
    using n assms by (simp add: rewrite_lines_unreadable [OF n] rewrite_lines_unreadable [OF n'])
qed

lemma rewrite_text_depends_on_target:
  assumes "disk w p = disk w' p"
  shows "disk (rewrite_text pf p patch msg w) p = disk (rewrite_text pf p patch msg w') p
    \<and> stdout (rewrite_text pf p patch msg w) = stdout w @ (if readable (disk w) p then [msg] else [])
    \<and> stdout (rewrite_text pf p patch msg w') = stdout w' @ (if readable (disk w) p then [msg] else [])
    \<and> (readable (disk w) p \<longrightarrow> raised (rewrite_text pf p patch msg w) = raised w
          \<and> raised (rewrite_text pf p patch msg w') = raised w')
    \<and> (\<not> readable (disk w) p \<longrightarrow> raised (rewrite_text pf p patch msg w)
          = raised (rewrite_text pf p patch msg w') \<and> raised (rewrite_text pf p patch msg w) \<noteq> None)"
proof (rule readable_cases [of "disk w" p])
  fix bytes assume b: "disk w p = Some bytes" "utf8_valid bytes"
  then have r: "readable (disk w) p" by (simp add: readable_def)
  from b assms have b': "disk w' p = Some bytes" by simp
  show ?thesis
    using r by (simp add: rewrite_text_readable [OF b] rewrite_text_readable [OF b' b(2)])
next
  assume n: "\<not> readable (disk w) p"
  then have n': "\<not> readable (disk w') p" using assms by (simp add: readable_def)
  show ?thesis
    using n assms by (simp add: rewrite_text_unreadable [OF n] rewrite_text_unreadable [OF n'])
qed

lemma inventory_customers_paths: "inventory_path \<noteq> customers_path"
  by (simp add: inventory_path_def customers_path_def)

subsection \<open>Two small files through the page conversion\<close>

lemma utf8_anchor_only_file: "utf8_valid anchor_only_file"
  by (simp add: anchor_only_file_def supabase_anchor_def)

lemma split_anchor_only_file:
  "split_lines (universal_newlines anchor_only_file) = [anchor_only_file]"
  by (simp add: anchor_only_file_def supabase_anchor_def LF_def CR_def)

lemma convert_inventory_anchor_only:
  "convert_inventory_lines [anchor_only_file] = [modal_ref_line, anchor_only_file]"
  by (simp add: convert_inventory_lines_def convert_page_def update_imports_def
      update_import_def add_modal_ref_def add_scroll_lock_def replace_form_def locate_form_def
      list_insert_def anchor_only_file_def supabase_anchor_def react_import_old_def
      motion_import_old_def inventory_icons_old_def inventory_effect_anchor_def
      modal_ref_line_def form_marker_def)

lemma convert_customers_anchor_only:
  "convert_customers_lines [anchor_only_file] = [modal_ref_line, anchor_only_file]"
  by (simp add: convert_customers_lines_def convert_page_def update_imports_def
      update_import_def add_modal_ref_def add_scroll_lock_def replace_form_def locate_form_def
      list_insert_def anchor_only_file_def supabase_anchor_def react_import_old_def
      motion_import_old_def customers_icons_old_def customers_effect_anchor_def
      modal_ref_line_def form_marker_def)




subsection \<open>The operations on small inputs\<close>

text \<open>
  \<^verbatim>\<open>"xababbab".replace("ab", "a")\<close>, \<^verbatim>\<open>"abc".replace("", "-")\<close>, and
  \<^verbatim>\<open>re.sub('<.*?>', '#', 'a<b>c<d>>e<f', flags=re.DOTALL)\<close>.
\<close>

lemma str_replace_example:
  "str_replace ''ab'' ''a'' ''xababbab'' = ''xaaba''"
  "str_replace '''' ''-'' ''abc'' = ''-a-b-c-''"
  by code_simp+

lemma lazy_replace_example:
  "lazy_replace ''<'' ''>'' ''#'' ''a<b>c<d>>e<f'' = ''a#c#>e<f''"
  "lazy_replace ''<<'' ''>'' ''#'' ''<<<a>b'' = ''#b''"
  by code_simp+

text \<open>
  The deletion of remove-inline-edit.py: the loop ends on the line where the count of
  braces falls below zero (line 8), the comment of the regular view is on line 5, and the
  lines 1 and 2 are deleted. With the comment on the anchor line itself (line 1), the end
  of the slice is \<open>-1\<close>, and all lines but the first and the last are deleted.
\<close>

lemma remove_inline_edit_example:
  "edit_locate
     [''a\<newline>'', edit_anchor @ ''\<newline>'', ''edit 1\<newline>'', ''edit 2\<newline>'', else_marker @ ''\<newline>'',
      regular_view_marker @ ''\<newline>'', ''view\<newline>'', '')}\<newline>'', ''}\<newline>'']
     = (Some 1, Some 8)"
  "remove_inline_edit
     [''a\<newline>'', edit_anchor @ ''\<newline>'', ''edit 1\<newline>'', ''edit 2\<newline>'', else_marker @ ''\<newline>'',
      regular_view_marker @ ''\<newline>'', ''view\<newline>'', '')}\<newline>'', ''}\<newline>'']
     = [''a\<newline>'', ''edit 2\<newline>'', else_marker @ ''\<newline>'', regular_view_marker @ ''\<newline>'',
        ''view\<newline>'', '')}\<newline>'', ''}\<newline>'']"
  "remove_inline_edit
     [''a\<newline>'', edit_anchor @ regular_view_marker @ ''\<newline>'', ''b\<newline>'', ''}\<newline>'', ''}\<newline>'',
      ''c\<newline>'', ''d\<newline>'']
     = [''a\<newline>'', ''d\<newline>'']"
  by code_simp+

section \<open>The claims\<close>

subsection \<open>C1: a rule that matches nothing\<close>




subsection \<open>C2: the closing boundary of the brace-balance locator\<close>

text \<open>
  C2. The claim: the brace-balance locator returns as closing boundary the first line at
  which the running count of opening minus closing delimiters, counted from the anchor
  line on, returns to or below zero; on the buffer \<^verbatim>\<open>["a {\n", "  b {\n", "  }\n", "}\n", "tail\n"]\<close>
  with anchor \<^verbatim>\<open>a {\<close> it returns index 3. The loop of remove-inline-edit.py
  starts the count at 1 on the anchor line and ends only on a line where the count is
  below zero: on that buffer the count is 2, 1, 0, 0 on the lines 1 to 4, so the loop runs
  to the end of the buffer and \<^verbatim>\<open>edit_end\<close> stays \<^verbatim>\<open>None\<close>. The same holds
  with the anchor of the script in place of \<^verbatim>\<open>a {\<close>.
\<close>

theorem brace_balance_scenario_not_found:
  "brace_locate ''a {''
     [''a {\<newline>'', ''  b {\<newline>'', ''  }\<newline>'', ''}\<newline>'', ''tail\<newline>'']
     = (Some 0, None)
   \<and> edit_locate
     [''{editingTireId === tire.id ? (\<newline>'', ''  b {\<newline>'', ''  }\<newline>'', ''}\<newline>'',
      ''tail\<newline>'']
     = (Some 0, None)"
  by (simp add: edit_locate_def brace_locate_def edit_anchor_def else_marker_def str_count_def)

subsection \<open>C3: running a patch again\<close>

text \<open>
  C3. The claim: after a patch has been applied, its locator no longer finds anything on
  the resulting buffer. Step 2 of convert-modals.py inserts a line before its anchor and
  keeps the anchor: on the buffer that consists of the anchor line, the locator finds the
  anchor again after the insertion, on line 1.
\<close>

theorem modal_ref_anchor_found_again_counterexample:
  "find_line supabase_anchor [supabase_anchor @ ''\<newline>''] = Some 0
   \<and> find_line supabase_anchor (add_modal_ref [supabase_anchor @ ''\<newline>'']) = Some 1"
  by (simp add: add_modal_ref_def list_insert_def supabase_anchor_def modal_ref_line_def)

text \<open>
  C3 as amended. The insertion of step 2 of convert-modals.py is not safe to run twice:
  when its locator finds the anchor on line \<open>i\<close>, it finds it again on line
  \<open>i + 1\<close> of the resulting buffer, so a second run inserts the line a second time.
  The first replacement of update-inventory-edit.py is: on every buffer, the text after
  the replacement does not contain the old text any more.
\<close>

theorem rerun_after_patch:
  "(find_line supabase_anchor lines = Some i \<longrightarrow>
      find_line supabase_anchor (add_modal_ref lines) = Some (Suc i))
   \<and> \<not> py_in start_editing_old (str_replace start_editing_old start_editing_new content)"
proof (intro conjI impI)
  assume found: "find_line supabase_anchor lines = Some i"
  then have i: "i < length lines" "py_in supabase_anchor (lines ! i)"
    "\<forall>j<i. \<not> py_in supabase_anchor (lines ! j)"
    by (simp_all add: find_line_Some)
  have fresh: "\<not> py_in supabase_anchor modal_ref_line"
    by (simp add: supabase_anchor_def modal_ref_line_def)
  let ?new = "take i lines @ [modal_ref_line] @ drop i lines"
  have "Suc i < length ?new" using i(1) by simp
  moreover have "?new ! Suc i = lines ! i"
    using i(1) by (simp add: nth_append min_def)
  moreover have "\<forall>j < Suc i. \<not> py_in supabase_anchor (?new ! j)"
    using i(1,3) fresh by (auto simp: nth_append min_def less_Suc_eq)
  ultimately have "find_line supabase_anchor ?new = Some (Suc i)"
    using i(2) by (simp only: find_line_Some)
  then show "find_line supabase_anchor (add_modal_ref lines) = Some (Suc i)"
    by (simp add: add_modal_ref_def found list_insert_def)
next
  show "\<not> py_in start_editing_old (str_replace start_editing_old start_editing_new content)"
  proof (rule replace_removes_old)
    show "start_editing_old \<noteq> []"
      by (simp add: start_editing_old_def)
    show "\<not> py_in start_editing_old start_editing_new"
      by code_simp
    show "\<not> overlaps start_editing_new start_editing_old"
      by code_simp
    show "\<not> overlaps (tl start_editing_old) start_editing_new"
      by code_simp
    show "length start_editing_old \<le> length start_editing_new"
      by (simp add: start_editing_old_def start_editing_new_def)
  qed
qed

theorem rerun_after_patch_witness:
  "find_line supabase_anchor [''x\<newline>'', supabase_anchor @ ''\<newline>''] = Some 1
   \<and> find_line supabase_anchor (add_modal_ref [''x\<newline>'', supabase_anchor @ ''\<newline>'']) = Some 2"
proof -
  have "find_line supabase_anchor [''x\<newline>'', supabase_anchor @ ''\<newline>''] = Some 1"
    by (simp add: supabase_anchor_def)
  with rerun_after_patch [of "[''x\<newline>'', supabase_anchor @ ''\<newline>'']" 1]
  show ?thesis by simp
qed

subsection \<open>C4: the exact-substring locators\<close>

text \<open>
  C4. The claim: the locator returns the index of the first line that contains the
  substring, and when a second bound is needed the scan goes on from the first bound
  without restarting and without moving the first bound. The loop that looks for the form
  section sets \<^verbatim>\<open>form_start\<close> on every line that contains the marker until it finds
  the end: on a buffer with the marker on lines 0 and 1 and the closing text on line 12
  the first line with the marker is line 0, and the located start is line 1.
\<close>

theorem form_start_moves_counterexample:
  "find_line form_marker two_marker_buffer = Some 0
   \<and> locate_form two_marker_buffer = (Some 1, Some 13)"
  by (simp add: two_marker_buffer_def locate_form_def form_marker_def form_closer_def)

text \<open>
  C4 as amended. A locator with one bound (the loops of steps 2 and 3, which stop at their
  first match) returns the index of the first line that contains the substring: it
  returns \<open>i\<close> exactly when line \<open>i\<close> contains the substring and no line before it does,
  and it finds nothing exactly when no line contains the substring. The locator of the
  form section scans on from its first bound without restarting, but the first bound
  moves: it returns the bounds \<open>s\<close> and \<open>e\<close> exactly when line \<open>e - 1\<close> is the first line
  that contains the closing text and lies more than ten lines after the last line with
  the marker at or before it, and \<open>s\<close> is that last line with the marker (so the first
  line with the marker only if no line between it and the end has the marker). A line
  with the closing text before line \<open>e - 1\<close> does not end the scan, because a line with
  the marker lies ten lines or less before it, or no line with the marker lies before it.
\<close>

theorem substring_locator_bounds:
  "((find_line sub lines = Some i) =
      (i < length lines \<and> py_in sub (lines ! i) \<and> (\<forall>j<i. \<not> py_in sub (lines ! j))))
   \<and> ((find_line sub lines = None) = (\<forall>l \<in> set lines. \<not> py_in sub l))
   \<and> ((locate_form lines = (Some s, Some e)) =
      (s + 11 < e \<and> e \<le> length lines \<and> py_in form_marker (lines ! s)
       \<and> (\<forall>j. s < j \<and> j < e \<longrightarrow> \<not> py_in form_marker (lines ! j))
       \<and> py_in form_closer (lines ! (e - 1))
       \<and> (\<forall>k t. k < e - 1 \<and> t + 10 < k \<and> py_in form_closer (lines ! k)
             \<and> py_in form_marker (lines ! t)
           \<longrightarrow> (\<exists>j. t < j \<and> j \<le> k \<and> py_in form_marker (lines ! j)))))"
  by (intro conjI) (rule find_line_Some find_line_None locate_form_iff)+

theorem substring_locator_bounds_witness:
  "find_line form_marker two_marker_buffer = Some 0
   \<and> locate_form two_marker_buffer = (Some 1, Some 13)
   \<and> py_in form_marker (two_marker_buffer ! 0)
   \<and> py_in form_marker (two_marker_buffer ! 1)
   \<and> \<not> py_in form_marker (two_marker_buffer ! 2)
   \<and> py_in form_closer (two_marker_buffer ! 12)
   \<and> find_line form_closer (take 12 two_marker_buffer) = None"
proof -
  note t = substring_locator_bounds [of form_marker two_marker_buffer 0 1 13]
  have first: "py_in form_marker (two_marker_buffer ! 0)"
    by (simp add: two_marker_buffer_def form_marker_def)
  then have "0 < length two_marker_buffer \<and> py_in form_marker (two_marker_buffer ! 0)
      \<and> (\<forall>j<0. \<not> py_in form_marker (two_marker_buffer ! j))"
    by (simp add: two_marker_buffer_def)
  with t have found: "find_line form_marker two_marker_buffer = Some 0" by blast
  have located: "locate_form two_marker_buffer = (Some 1, Some 13)"
    by (simp add: two_marker_buffer_def locate_form_def form_marker_def form_closer_def)
  from t located have start: "py_in form_marker (two_marker_buffer ! 1)" by blast
  from t located
  have between: "\<forall>j. 1 < j \<and> j < 13 \<longrightarrow> \<not> py_in form_marker (two_marker_buffer ! j)"
    by blast
  have "(1::nat) < 2 \<and> (2::nat) < 13" by simp
  with between have second: "\<not> py_in form_marker (two_marker_buffer ! 2)" by blast
  from t located have "py_in form_closer (two_marker_buffer ! (13 - 1))" by blast
  then have closing: "py_in form_closer (two_marker_buffer ! 12)" by simp
  note n = substring_locator_bounds [of form_closer "take 12 two_marker_buffer" 0 0 0]
  have "\<forall>l \<in> set (take 12 two_marker_buffer). \<not> py_in form_closer l"
    by (simp add: two_marker_buffer_def form_marker_def form_closer_def)
  with n have absent: "find_line form_closer (take 12 two_marker_buffer) = None" by blast
  from found located first start second closing absent show ?thesis by blast
qed

subsection \<open>C5: the message and the exit status\<close>




subsection \<open>C6: the files a run writes\<close>

text \<open>
  C6. The claim: each invocation mutates exactly one file; a single run reads one text
  file, rewrites it, and no other file is modified. A run of convert-modals.py calls
  \<^verbatim>\<open>convert_inventory_page\<close> and \<^verbatim>\<open>convert_customers_page\<close> one after the other:
  with the anchor line of step 2 in both pages, the one run changes both files.
\<close>

theorem one_run_two_files_counterexample:
  "disk (convert_modals_script Posix
      (start (Map.empty(inventory_path \<mapsto> anchor_only_file, customers_path \<mapsto> anchor_only_file))))
      inventory_path = Some (modal_ref_line @ anchor_only_file)
   \<and> disk (convert_modals_script Posix
      (start (Map.empty(inventory_path \<mapsto> anchor_only_file, customers_path \<mapsto> anchor_only_file))))
      customers_path = Some (modal_ref_line @ anchor_only_file)
   \<and> modal_ref_line @ anchor_only_file \<noteq> anchor_only_file"
proof -
  let ?fs = "Map.empty(inventory_path \<mapsto> anchor_only_file, customers_path \<mapsto> anchor_only_file)"
  have a: "disk (start ?fs) inventory_path = Some anchor_only_file"
    using inventory_customers_paths by (simp add: start_simps)
  define w1 where "w1 = convert_inventory_page Posix (start ?fs)"
  have w1: "raised w1 = None" "disk w1 inventory_path = Some (modal_ref_line @ anchor_only_file)"
    "disk w1 customers_path = Some anchor_only_file"
    using inventory_customers_paths
    by (simp_all add: w1_def convert_inventory_page_def
        rewrite_lines_readable [OF a utf8_anchor_only_file] split_anchor_only_file
        convert_inventory_anchor_only write_newlines_Posix start_simps)
  define w2 where "w2 = convert_customers_page Posix w1"
  have w2: "raised w2 = None" "disk w2 inventory_path = Some (modal_ref_line @ anchor_only_file)"
    "disk w2 customers_path = Some (modal_ref_line @ anchor_only_file)"
    using inventory_customers_paths
    by (simp_all add: w2_def convert_customers_page_def
        rewrite_lines_readable [OF w1(3) utf8_anchor_only_file] split_anchor_only_file
        convert_customers_anchor_only write_newlines_Posix w1)
  have "convert_modals_script Posix (start ?fs) = print all_pages_message w2"
    by (simp add: convert_modals_script_def Let_def w1_def [symmetric] w2_def [symmetric] w1 w2)
  moreover have "modal_ref_line @ anchor_only_file \<noteq> anchor_only_file"
    by (simp add: modal_ref_line_def)
  ultimately show ?thesis using w2 by (simp add: print_def)
qed

text \<open>
  C6 as amended. Each rewrite (the two functions of convert-modals.py and the three other
  scripts) reads one text file fully into memory and writes it back fully, and modifies no
  other file. A run of convert-modals.py is two rewrites, of the inventory page and then
  of the customers page, and modifies no third file.
\<close>

theorem rewrites_touch_their_target_only:
  "(q \<noteq> inventory_path \<longrightarrow>
      disk (convert_inventory_page pf w) q = disk w q
      \<and> disk (remove_inline_edit_script pf w) q = disk w q
      \<and> disk (convert_to_modal_script pf w) q = disk w q
      \<and> disk (update_inventory_edit_script pf w) q = disk w q)
   \<and> (q \<noteq> customers_path \<longrightarrow> disk (convert_customers_page pf w) q = disk w q)
   \<and> (q \<noteq> inventory_path \<and> q \<noteq> customers_path \<longrightarrow>
      disk (convert_modals_script pf w) q = disk w q)
   \<and> (disk w inventory_path = Some bytes \<and> utf8_valid bytes \<longrightarrow>
      disk (convert_inventory_page pf w) = (disk w)(inventory_path \<mapsto>
        write_newlines pf
          (concat (convert_inventory_lines (split_lines (universal_newlines bytes))))))"
proof (intro conjI impI)
  assume "q \<noteq> inventory_path \<and> q \<noteq> customers_path"
  then show "disk (convert_modals_script pf w) q = disk w q"
    by (simp add: convert_modals_script_def Let_def convert_inventory_page_def
        convert_customers_page_def rewrite_lines_frame print_def)
next
  assume "disk w inventory_path = Some bytes \<and> utf8_valid bytes"
  then show "disk (convert_inventory_page pf w) = (disk w)(inventory_path \<mapsto>
        write_newlines pf
          (concat (convert_inventory_lines (split_lines (universal_newlines bytes)))))"
    by (simp add: convert_inventory_page_def rewrite_lines_readable)
qed (simp_all add: convert_inventory_page_def convert_customers_page_def
    remove_inline_edit_script_def convert_to_modal_script_def update_inventory_edit_script_def
    rewrite_lines_frame rewrite_text_frame)

theorem rewrites_touch_their_target_only_witness:
  "customers_path \<noteq> inventory_path
   \<and> disk (remove_inline_edit_script Posix
        (start (Map.empty(inventory_path \<mapsto> anchor_only_file, customers_path \<mapsto> ''y''))))
        customers_path = Some ''y''
   \<and> ''notes.txt'' \<noteq> inventory_path \<and> ''notes.txt'' \<noteq> customers_path
   \<and> disk (convert_modals_script Posix
        (start (Map.empty(inventory_path \<mapsto> anchor_only_file, ''notes.txt'' \<mapsto> ''y''))))
        ''notes.txt'' = Some ''y''
   \<and> inventory_path \<noteq> customers_path
   \<and> disk (convert_customers_page Posix
        (start (Map.empty(inventory_path \<mapsto> anchor_only_file)))) inventory_path
      = Some anchor_only_file
   \<and> utf8_valid anchor_only_file
   \<and> disk (convert_inventory_page Posix (start (Map.empty(inventory_path \<mapsto> anchor_only_file))))
      = (Map.empty(inventory_path \<mapsto> modal_ref_line @ anchor_only_file))"
proof -
  have paths: "customers_path \<noteq> inventory_path" "''notes.txt'' \<noteq> inventory_path"
    "''notes.txt'' \<noteq> customers_path" "inventory_path \<noteq> customers_path"
    by (simp_all add: inventory_path_def customers_path_def)
  note t = rewrites_touch_their_target_only
  from paths utf8_anchor_only_file
    t [of customers_path Posix
        "start (Map.empty(inventory_path \<mapsto> anchor_only_file, customers_path \<mapsto> ''y''))"]
    t [of "''notes.txt''" Posix
        "start (Map.empty(inventory_path \<mapsto> anchor_only_file, ''notes.txt'' \<mapsto> ''y''))"]
    t [of inventory_path Posix "start (Map.empty(inventory_path \<mapsto> anchor_only_file))"
        anchor_only_file]
  show ?thesis
    by (simp add: start_simps split_anchor_only_file convert_inventory_anchor_only
        write_newlines_Posix)
qed

subsection \<open>C7: the result depends on the buffer only\<close>

text \<open>
  C7. A patch is a function of the buffer: the lines of the model's patches
  (\<^const>\<open>convert_inventory_lines\<close>, \<^const>\<open>update_inventory_edit\<close> and the others) take
  the buffer and nothing else. What can be stated of a run is that nothing outside the
  buffer reaches the result: two runs of a rewrite on file systems that hold the same
  target file write the same file, print the same and end the same way, whatever else
  the two file systems hold; and the file written is the patch function applied to the
  buffer read.
\<close>

theorem same_buffer_same_result:
  assumes "fs inventory_path = fs' inventory_path"
  shows "disk (update_inventory_edit_script pf (start fs)) inventory_path
         = disk (update_inventory_edit_script pf (start fs')) inventory_path
     \<and> stdout (update_inventory_edit_script pf (start fs))
         = stdout (update_inventory_edit_script pf (start fs'))
     \<and> raised (update_inventory_edit_script pf (start fs))
         = raised (update_inventory_edit_script pf (start fs'))
     \<and> disk (convert_inventory_page pf (start fs)) inventory_path
         = disk (convert_inventory_page pf (start fs')) inventory_path
     \<and> stdout (convert_inventory_page pf (start fs)) = stdout (convert_inventory_page pf (start fs'))
     \<and> raised (convert_inventory_page pf (start fs)) = raised (convert_inventory_page pf (start fs'))
     \<and> disk (convert_to_modal_script pf (start fs)) inventory_path
         = disk (convert_to_modal_script pf (start fs')) inventory_path
     \<and> disk (remove_inline_edit_script pf (start fs)) inventory_path
         = disk (remove_inline_edit_script pf (start fs')) inventory_path
     \<and> (fs inventory_path = Some bytes \<and> utf8_valid bytes \<longrightarrow>
          disk (update_inventory_edit_script pf (start fs)) inventory_path
            = Some (write_newlines pf (update_inventory_edit (universal_newlines bytes)))
          \<and> disk (convert_inventory_page pf (start fs)) inventory_path
            = Some (write_newlines pf
                (concat (convert_inventory_lines (split_lines (universal_newlines bytes))))))"
proof -
  have same: "disk (start fs) inventory_path = disk (start fs') inventory_path"
    using assms by (simp add: start_simps)
  have s: "stdout (start fs) = stdout (start fs')" "raised (start fs) = raised (start fs')"
    "raised (start fs) = None"
    by (simp_all add: start_simps)
  note l = rewrite_lines_depends_on_target [OF same, of pf]
  note t = rewrite_text_depends_on_target [OF same, of pf]
  have pl: "disk (rewrite_lines pf inventory_path patch msg (start fs)) inventory_path
        = disk (rewrite_lines pf inventory_path patch msg (start fs')) inventory_path
      \<and> stdout (rewrite_lines pf inventory_path patch msg (start fs))
        = stdout (rewrite_lines pf inventory_path patch msg (start fs'))
      \<and> raised (rewrite_lines pf inventory_path patch msg (start fs))
        = raised (rewrite_lines pf inventory_path patch msg (start fs'))" for patch msg
    using l [of patch msg] s by (cases "readable (disk (start fs)) inventory_path") simp_all
  have pt: "disk (rewrite_text pf inventory_path patch msg (start fs)) inventory_path
        = disk (rewrite_text pf inventory_path patch msg (start fs')) inventory_path
      \<and> stdout (rewrite_text pf inventory_path patch msg (start fs))
        = stdout (rewrite_text pf inventory_path patch msg (start fs'))
      \<and> raised (rewrite_text pf inventory_path patch msg (start fs))
        = raised (rewrite_text pf inventory_path patch msg (start fs'))" for patch msg
    using t [of patch msg] s by (cases "readable (disk (start fs)) inventory_path") simp_all
  have written: "disk (update_inventory_edit_script pf (start fs)) inventory_path
        = Some (write_newlines pf (update_inventory_edit (universal_newlines bytes)))
      \<and> disk (convert_inventory_page pf (start fs)) inventory_path
        = Some (write_newlines pf
            (concat (convert_inventory_lines (split_lines (universal_newlines bytes)))))"
    if "fs inventory_path = Some bytes \<and> utf8_valid bytes"
  proof -
    from that have b: "disk (start fs) inventory_path = Some bytes" "utf8_valid bytes"
      by (simp_all add: start_simps)
    show ?thesis
      by (simp add: update_inventory_edit_script_def convert_inventory_page_def
          rewrite_text_readable [OF b] rewrite_lines_readable [OF b])
  qed
  show ?thesis
    using pl pt written
    by (simp add: update_inventory_edit_script_def convert_inventory_page_def
        convert_to_modal_script_def remove_inline_edit_script_def)
qed

theorem same_buffer_same_result_witness:
  "(Map.empty(inventory_path \<mapsto> anchor_only_file)) inventory_path
     = (Map.empty(customers_path \<mapsto> ''y'', inventory_path \<mapsto> anchor_only_file)) inventory_path
   \<and> disk (convert_inventory_page Posix (start (Map.empty(inventory_path \<mapsto> anchor_only_file))))
        inventory_path
     = disk (convert_inventory_page Posix
          (start (Map.empty(customers_path \<mapsto> ''y'', inventory_path \<mapsto> anchor_only_file))))
        inventory_path
   \<and> disk (update_inventory_edit_script Posix
          (start (Map.empty(inventory_path \<mapsto> anchor_only_file)))) inventory_path
     = disk (update_inventory_edit_script Posix
          (start (Map.empty(customers_path \<mapsto> ''y'', inventory_path \<mapsto> anchor_only_file))))
        inventory_path
   \<and> utf8_valid anchor_only_file
   \<and> disk (convert_inventory_page Posix (start (Map.empty(inventory_path \<mapsto> anchor_only_file))))
        inventory_path
     = Some (modal_ref_line @ anchor_only_file)"
proof -
  let ?one = "Map.empty(inventory_path \<mapsto> anchor_only_file)"
  let ?two = "Map.empty(customers_path \<mapsto> ''y'', inventory_path \<mapsto> anchor_only_file)"
  have same: "?one inventory_path = ?two inventory_path"
    by simp
  have buffer: "?one inventory_path = Some anchor_only_file \<and> utf8_valid anchor_only_file"
    using utf8_anchor_only_file by simp
  note t = same_buffer_same_result [of ?one ?two Posix anchor_only_file, OF same]
  from t have page: "disk (convert_inventory_page Posix (start ?one)) inventory_path
      = disk (convert_inventory_page Posix (start ?two)) inventory_path"
    by blast
  from t have edit: "disk (update_inventory_edit_script Posix (start ?one)) inventory_path
      = disk (update_inventory_edit_script Posix (start ?two)) inventory_path"
    by blast
  from t buffer have "disk (convert_inventory_page Posix (start ?one)) inventory_path
      = Some (write_newlines Posix
          (concat (convert_inventory_lines (split_lines (universal_newlines anchor_only_file)))))"
    by blast
  then have written: "disk (convert_inventory_page Posix (start ?one)) inventory_path
      = Some (modal_ref_line @ anchor_only_file)"
    by (simp add: split_anchor_only_file convert_inventory_anchor_only write_newlines_Posix)
  from same page edit utf8_anchor_only_file written show ?thesis by blast
qed

subsection \<open>C8: rewriting with no patch\<close>

text \<open>
  C8. The claim: reading a file and writing it back with no patch applied leaves the file
  byte for byte as it was, for every file content. The scripts open the file in text mode:
  on POSIX a file with Windows line ends comes back with POSIX line ends, and on Windows
  a file with POSIX line ends comes back with Windows line ends.
\<close>

theorem foreign_newlines_rewritten_counterexample:
  "disk (rewrite_lines Posix inventory_path (\<lambda>lines. lines) inventory_message
      (start (Map.empty(inventory_path \<mapsto> [CHR ''a'', CR, LF])))) inventory_path
     = Some [CHR ''a'', LF]
   \<and> disk (rewrite_lines Windows inventory_path (\<lambda>lines. lines) inventory_message
      (start (Map.empty(inventory_path \<mapsto> [CHR ''a'', LF])))) inventory_path
     = Some [CHR ''a'', CR, LF]
   \<and> [CHR ''a'', LF] \<noteq> [CHR ''a'', CR, LF]"
  by (simp add: rewrite_lines_def read_lines_def read_text_def write_lines_def write_text_def
      write_newlines_def print_def start_simps CR_def LF_def)

text \<open>
  C8 as amended. Reading a file and writing it back with no patch applied leaves the file
  byte for byte as it was when its line terminators are those of the platform (no carriage
  return on POSIX; every carriage return before a line feed and every line feed after a
  carriage return on Windows), and when it is not valid UTF-8 (the read raises, and
  nothing is written).
\<close>

theorem empty_patch_keeps_native_file:
  "disk w p = Some content \<Longrightarrow> native_newlines pf content \<or> \<not> utf8_valid content \<Longrightarrow>
     disk (rewrite_lines pf p (\<lambda>lines. lines) msg w) = disk w"
proof (cases "utf8_valid content")
  case True
  assume c: "disk w p = Some content" and "native_newlines pf content \<or> \<not> utf8_valid content"
  with True have "write_newlines pf (universal_newlines content) = content"
    by (simp add: native_roundtrip)
  with c True show ?thesis
    by (simp add: rewrite_lines_readable concat_split_lines fun_upd_idem)
next
  case False
  assume c: "disk w p = Some content"
  with False have "\<not> readable (disk w) p" by (simp add: readable_def)
  then show ?thesis by (simp add: rewrite_lines_unreadable)
qed

theorem empty_patch_keeps_native_file_witness:
  "disk (start (Map.empty(inventory_path \<mapsto> [CHR ''a'', CR, LF]))) inventory_path
     = Some [CHR ''a'', CR, LF]
   \<and> native_newlines Windows [CHR ''a'', CR, LF]
   \<and> disk (rewrite_lines Windows inventory_path (\<lambda>lines. lines) inventory_message
        (start (Map.empty(inventory_path \<mapsto> [CHR ''a'', CR, LF]))))
     = disk (start (Map.empty(inventory_path \<mapsto> [CHR ''a'', CR, LF])))"
proof -
  have content: "disk (start (Map.empty(inventory_path \<mapsto> [CHR ''a'', CR, LF]))) inventory_path
      = Some [CHR ''a'', CR, LF]"
    by (simp add: start_simps)
  have native: "native_newlines Windows [CHR ''a'', CR, LF]"
    by (simp add: CR_def LF_def)
  from content native
    empty_patch_keeps_native_file [of "start (Map.empty(inventory_path \<mapsto> [CHR ''a'', CR, LF]))"
      inventory_path "[CHR ''a'', CR, LF]" Windows inventory_message]
  show ?thesis by blast
qed

subsection \<open>C9: a start on the first line\<close>




subsection \<open>C10: the scroll-lock insertion of convert-to-modal.py\<close>

text \<open>
  C10. The first substitution of convert-to-modal.py changes a buffer only if the buffer
  contains the text \<^verbatim>\<open>  }, [searchTerm, stockFilter, inventory];\<close>, without a closing
  parenthesis before the semicolon (and it does change every buffer that contains it). The
  line \<^verbatim>\<open>  }, [searchTerm, stockFilter, inventory]);\<close>, the one convert-modals.py looks
  for, does not contain that text: on a buffer that has the dependency array in this form
  and not in the other, the substitution leaves the buffer as it is and the scroll-lock
  effect is not inserted.
\<close>

theorem scroll_lock_needs_unclosed_pattern:
  "(\<not> py_in scroll_lock_pattern content \<longrightarrow> insert_scroll_lock content = content)
   \<and> (py_in scroll_lock_pattern content \<longrightarrow> insert_scroll_lock content \<noteq> content)
   \<and> \<not> py_in scroll_lock_pattern inventory_effect_anchor"
proof (intro conjI impI)
  assume "\<not> py_in scroll_lock_pattern content"
  then show "insert_scroll_lock content = content"
    by (simp add: insert_scroll_lock_def find_sub_None [symmetric])
next
  assume "py_in scroll_lock_pattern content"
  then obtain i where i: "find_sub scroll_lock_pattern content = Some i"
    using find_sub_None [of scroll_lock_pattern content] by auto
  have "length (insert_scroll_lock content) = length content + 233"
    using find_sub_Some [OF i] by (simp add: insert_scroll_lock_def i scroll_lock_effect_length)
  then show "insert_scroll_lock content \<noteq> content" by auto
next
  show "\<not> py_in scroll_lock_pattern inventory_effect_anchor"
    by (simp add: scroll_lock_pattern_def inventory_effect_anchor_def)
qed

theorem scroll_lock_needs_unclosed_pattern_witness:
  "\<not> py_in scroll_lock_pattern (inventory_effect_anchor @ ''\<newline>'')
   \<and> insert_scroll_lock (inventory_effect_anchor @ ''\<newline>'') = inventory_effect_anchor @ ''\<newline>''
   \<and> py_in scroll_lock_pattern (scroll_lock_pattern @ ''\<newline>'')
   \<and> insert_scroll_lock (scroll_lock_pattern @ ''\<newline>'') \<noteq> scroll_lock_pattern @ ''\<newline>''"
proof -
  have absent: "\<not> py_in scroll_lock_pattern (inventory_effect_anchor @ ''\<newline>'')"
    by (simp add: scroll_lock_pattern_def inventory_effect_anchor_def)
  have present: "py_in scroll_lock_pattern (scroll_lock_pattern @ ''\<newline>'')"
    by (simp add: py_in_sublist)
  from absent present
    scroll_lock_needs_unclosed_pattern [of "inventory_effect_anchor @ ''\<newline>''"]
    scroll_lock_needs_unclosed_pattern [of "scroll_lock_pattern @ ''\<newline>''"]
  show ?thesis by blast
qed

end
